theory Spec2Isabelle
  imports Complex_Main
begin

section \<open>Python values, exceptions and the library\<close>

text \<open>
  The module \<^verbatim>\<open>castor_data_point.py\<close> turns the raw value of a Castor EDC field into a
  value fit for analysis. Its functions are embedded one by one; what they call in the
  Python library (\<^verbatim>\<open>float\<close>, \<^verbatim>\<open>int\<close>, \<^verbatim>\<open>datetime.strptime\<close>,
  \<^verbatim>\<open>strftime\<close>, \<^verbatim>\<open>json.loads\<close>, \<^verbatim>\<open>pandas.DataFrame\<close>) is a parameter of the
  embedding, so every general theorem holds whatever these library functions compute.
\<close>

text \<open>A Python float: \<^verbatim>\<open>nan\<close>, an infinity with its sign, or a finite number. The
  rounding of a finite number to binary64 is not modelled.\<close>

datatype pyfloat = NaN | Infinity bool | Finite real

text \<open>The Python objects that a raw value, a cell of a parsed grid or an interpreted value
  can be: what \<^verbatim>\<open>json.loads\<close> returns, and floats. A dict keeps the order of its keys.\<close>

datatype pyval =
    PNone
  | PBool bool
  | PInt int
  | PFloat pyfloat
  | PStr string
  | PList "pyval list"
  | PDict "(string \<times> pyval) list"

text \<open>An option group as the study returns it: the list under its key \<^verbatim>\<open>"options"\<close>, each
  item with its \<^verbatim>\<open>"value"\<close> and its \<^verbatim>\<open>"name"\<close>.\<close>

type_synonym optiongroup = "(string \<times> string) list"

text \<open>The two messages of \<^verbatim>\<open>CastorException\<close> raised here. The second one prints the
  option group and the raw value, and (in the method only) the id and the name of the
  field.\<close>

datatype castor_message =
    OptiongroupNotFound
  | OptionalValueMappingFailed optiongroup pyval "(string \<times> string) option"

datatype error =
    CastorException castor_message
  | ValueError
  | JSONDecodeError
  | TypeError
  | KeyError
  | IndexError
  | AttributeError
  | UnboundLocalError
  | OtherException string

text \<open>\<^verbatim>\<open>except ValueError\<close> also catches the subclass \<^verbatim>\<open>json.JSONDecodeError\<close>.\<close>

fun isinstance_ValueError :: "error \<Rightarrow> bool" where
  "isinstance_ValueError ValueError = True"
| "isinstance_ValueError JSONDecodeError = True"
| "isinstance_ValueError _ = False"

definition err_bind ::
  "error + 'a \<Rightarrow> ('a \<Rightarrow> error + 'b) \<Rightarrow> error + 'b" where
  "err_bind m f = (case m of Inl e \<Rightarrow> Inl e | Inr x \<Rightarrow> f x)"

text \<open>A list comprehension whose body can raise: the first exception ends it.\<close>

fun err_map :: "('a \<Rightarrow> error + 'b) \<Rightarrow> 'a list \<Rightarrow> error + 'b list" where
  "err_map f [] = Inr []"
| "err_map f (x # xs) =
     (case f x of
        Inl e \<Rightarrow> Inl e
      | Inr y \<Rightarrow> (case err_map f xs of Inl e \<Rightarrow> Inl e | Inr ys \<Rightarrow> Inr (y # ys)))"

subsection \<open>Dates, times and periods\<close>

record pydatetime =
  dt_year :: nat
  dt_month :: nat
  dt_day :: nat
  dt_hour :: nat
  dt_minute :: nat
  dt_second :: nat

record pytime =
  t_hour :: nat
  t_minute :: nat
  t_second :: nat

text \<open>\<^verbatim>\<open>datetime.time()\<close>\<close>

definition time_of :: "pydatetime \<Rightarrow> pytime" where
  "time_of dt = \<lparr>t_hour = dt_hour dt, t_minute = dt_minute dt, t_second = dt_second dt\<rparr>"

text \<open>A \<^verbatim>\<open>pandas.Period\<close> of frequency \<^verbatim>\<open>"D"\<close> (a day) or \<^verbatim>\<open>"s"\<close> (a second).\<close>

datatype freq = FreqD | FreqS

record period =
  p_freq :: freq
  p_year :: nat
  p_month :: nat
  p_day :: nat
  p_hour :: nat
  p_minute :: nat
  p_second :: nat

text \<open>\<^verbatim>\<open>pd.Period(year=y, month=m, day=d, freq=f)\<close>\<close>

definition Period_ymd ::
  "nat \<Rightarrow> nat \<Rightarrow> nat \<Rightarrow> freq \<Rightarrow> period" where
  "Period_ymd y m d f =
     \<lparr>p_freq = f, p_year = y, p_month = m, p_day = d, p_hour = 0, p_minute = 0, p_second = 0\<rparr>"

text \<open>\<^verbatim>\<open>pd.Period(dt, freq=f)\<close>: a period of a day drops the time of day.\<close>

definition Period_of :: "pydatetime \<Rightarrow> freq \<Rightarrow> period" where
  "Period_of dt f =
     (case f of
        FreqD \<Rightarrow> Period_ymd (dt_year dt) (dt_month dt) (dt_day dt) FreqD
      | FreqS \<Rightarrow> \<lparr>p_freq = FreqS, p_year = dt_year dt, p_month = dt_month dt, p_day = dt_day dt,
                  p_hour = dt_hour dt, p_minute = dt_minute dt, p_second = dt_second dt\<rparr>)"

subsection \<open>Tables\<close>

text \<open>A \<^verbatim>\<open>pandas.DataFrame\<close> while the grid is rebuilt: its shape and its cells by
  position (row, then column). The labels of its rows and columns are not modelled: the
  constructor gives distinct labels, so a column taken by its label is the column at that
  position.\<close>

record dataframe =
  shape0 :: nat
  shape1 :: nat
  iat :: "nat \<Rightarrow> nat \<Rightarrow> pyval"

text \<open>\<^verbatim>\<open>df.T\<close>\<close>

definition df_T :: "dataframe \<Rightarrow> dataframe" where
  "df_T df = \<lparr>shape0 = shape1 df, shape1 = shape0 df, iat = (\<lambda>i j. iat df j i)\<rparr>"

text \<open>\<^verbatim>\<open>df[col].tolist()\<close> for the column at position \<open>j\<close>\<close>

definition df_column :: "dataframe \<Rightarrow> nat \<Rightarrow> pyval list" where
  "df_column df j = map (\<lambda>i. iat df i j) [0..<shape0 df]"

definition df_rows :: "dataframe \<Rightarrow> pyval list list" where
  "df_rows df = map (\<lambda>i. map (\<lambda>j. iat df i j) [0..<shape1 df]) [0..<shape0 df]"

subsection \<open>The library functions the module calls\<close>

record pylib =
  float_of_str :: "string \<Rightarrow> error + pyfloat"
  int_of_str :: "string \<Rightarrow> error + int"
  strptime :: "string \<Rightarrow> string \<Rightarrow> error + pydatetime"
  period_strftime :: "period \<Rightarrow> string \<Rightarrow> error + string"
  time_strftime :: "pytime \<Rightarrow> string \<Rightarrow> error + string"
  json_loads :: "string \<Rightarrow> error + pyval"
  DataFrame :: "pyval list \<Rightarrow> error + dataframe"

subsection \<open>Strings\<close>

fun startswith :: "string \<Rightarrow> string \<Rightarrow> bool" where
  "startswith s [] = True"
| "startswith [] (p # ps) = False"
| "startswith (c # cs) (p # ps) = (c = p \<and> startswith cs ps)"

text \<open>\<^verbatim>\<open>sub in s\<close> for two strings\<close>

fun str_contains :: "string \<Rightarrow> string \<Rightarrow> bool" where
  "str_contains sub [] = (sub = [])"
| "str_contains sub (c # cs) = (startswith (c # cs) sub \<or> str_contains sub cs)"

text \<open>\<^verbatim>\<open>s.split(sep)\<close> for a separator of one character\<close>

fun str_split :: "char \<Rightarrow> string \<Rightarrow> string list" where
  "str_split sep [] = [[]]"
| "str_split sep (c # cs) =
     (if c = sep then [] # str_split sep cs
      else (case str_split sep cs of
              w # ws \<Rightarrow> (c # w) # ws
            | [] \<Rightarrow> [[c]]))"

text \<open>\<^verbatim>\<open>sep.join(xs)\<close>\<close>

fun str_join :: "string \<Rightarrow> string list \<Rightarrow> string" where
  "str_join sep [] = []"
| "str_join sep [x] = x"
| "str_join sep (x # y # ys) = x @ sep @ str_join sep (y # ys)"

text \<open>The characters \<^verbatim>\<open>str.isspace\<close> accepts, among the first 256 code points.\<close>

definition isspace :: "char \<Rightarrow> bool" where
  "isspace c = (of_char c \<in> {9, 10, 11, 12, 13, 28, 29, 30, 31, 32, 133, 160 :: nat})"

text \<open>\<^verbatim>\<open>s.strip()\<close>\<close>

definition str_strip :: "string \<Rightarrow> string" where
  "str_strip s = rev (dropWhile isspace (rev (dropWhile isspace s)))"

subsection \<open>Operations on Python objects\<close>

text \<open>Whether \<^verbatim>\<open>x in v\<close> is defined: it raises \<^verbatim>\<open>TypeError\<close> unless \<open>v\<close> is a
  container.\<close>

fun is_container :: "pyval \<Rightarrow> bool" where
  "is_container (PStr s) = True"
| "is_container (PList xs) = True"
| "is_container (PDict kvs) = True"
| "is_container _ = False"

text \<open>\<^verbatim>\<open>x in v\<close> for a string \<open>x\<close> and a container \<open>v\<close>: a substring of a string, an
  element of a list, a key of a dict.\<close>

fun py_in :: "string \<Rightarrow> pyval \<Rightarrow> bool" where
  "py_in x (PStr s) = str_contains x s"
| "py_in x (PList xs) = (PStr x \<in> set xs)"
| "py_in x (PDict kvs) = (x \<in> set (map fst kvs))"
| "py_in x _ = False"

text \<open>\<^verbatim>\<open>float(v)\<close>\<close>

fun py_float :: "pylib \<Rightarrow> pyval \<Rightarrow> error + pyfloat" where
  "py_float L (PStr s) = float_of_str L s"
| "py_float L (PFloat f) = Inr f"
| "py_float L (PInt i) = Inr (Finite (of_int i))"
| "py_float L (PBool b) = Inr (Finite (if b then 1 else 0))"
| "py_float L _ = Inl TypeError"

text \<open>\<^verbatim>\<open>int(v)\<close>; of a float, only the exceptions are modelled here (the module never
  passes one).\<close>

fun py_int :: "pylib \<Rightarrow> pyval \<Rightarrow> error + int" where
  "py_int L (PStr s) = int_of_str L s"
| "py_int L (PInt i) = Inr i"
| "py_int L (PBool b) = Inr (if b then 1 else 0)"
| "py_int L (PFloat NaN) = Inl ValueError"
| "py_int L (PFloat (Infinity b)) = Inl (OtherException ''OverflowError'')"
| "py_int L (PFloat (Finite r)) = Inr (if r < 0 then - \<lfloor>- r\<rfloor> else \<lfloor>r\<rfloor>)"
| "py_int L _ = Inl TypeError"

text \<open>\<^verbatim>\<open>datetime.strptime(v, fmt)\<close>: the first argument must be a string.\<close>

fun py_strptime :: "pylib \<Rightarrow> pyval \<Rightarrow> string \<Rightarrow> error + pydatetime" where
  "py_strptime L (PStr s) fmt = strptime L s fmt"
| "py_strptime L _ fmt = Inl TypeError"

text \<open>\<^verbatim>\<open>v.split(sep)\<close>: only a string has the method.\<close>

fun py_split :: "pyval \<Rightarrow> char \<Rightarrow> error + string list" where
  "py_split (PStr s) sep = Inr (str_split sep s)"
| "py_split _ sep = Inl AttributeError"

text \<open>\<^verbatim>\<open>v.strip()\<close>\<close>

fun py_strip :: "pyval \<Rightarrow> error + string" where
  "py_strip (PStr s) = Inr (str_strip s)"
| "py_strip _ = Inl AttributeError"

text \<open>\<^verbatim>\<open>json.loads(v)\<close>: the argument must be a string.\<close>

fun py_json_loads :: "pylib \<Rightarrow> pyval \<Rightarrow> error + pyval" where
  "py_json_loads L (PStr s) = json_loads L s"
| "py_json_loads L _ = Inl TypeError"

text \<open>\<^verbatim>\<open>list(v.values())\<close>: only a dict has the method.\<close>

fun py_values :: "pyval \<Rightarrow> error + pyval list" where
  "py_values (PDict kvs) = Inr (map snd kvs)"
| "py_values _ = Inl AttributeError"

text \<open>\<^verbatim>\<open>v[key]\<close> for a string key\<close>

fun py_getitem :: "pyval \<Rightarrow> string \<Rightarrow> error + pyval" where
  "py_getitem (PDict kvs) k = (case map_of kvs k of None \<Rightarrow> Inl KeyError | Some v \<Rightarrow> Inr v)"
| "py_getitem _ k = Inl TypeError"

text \<open>\<^verbatim>\<open>v[i]\<close> for an index \<open>i\<close> that is not negative\<close>

fun py_index :: "pyval \<Rightarrow> nat \<Rightarrow> error + pyval" where
  "py_index (PList xs) i = (if i < length xs then Inr (xs ! i) else Inl IndexError)"
| "py_index (PStr s) i = (if i < length s then Inr (PStr [s ! i]) else Inl IndexError)"
| "py_index (PDict kvs) i = Inl KeyError"
| "py_index _ i = Inl TypeError"

text \<open>\<^verbatim>\<open>len(v)\<close>\<close>

fun py_len :: "pyval \<Rightarrow> error + nat" where
  "py_len (PList xs) = Inr (length xs)"
| "py_len (PStr s) = Inr (length s)"
| "py_len (PDict kvs) = Inr (length kvs)"
| "py_len _ = Inl TypeError"

text \<open>The elements \<^verbatim>\<open>for x in v\<close> runs through\<close>

fun py_iter :: "pyval \<Rightarrow> error + pyval list" where
  "py_iter (PList xs) = Inr xs"
| "py_iter (PStr s) = Inr (map (\<lambda>c. PStr [c]) s)"
| "py_iter (PDict kvs) = Inr (map (\<lambda>kv. PStr (fst kv)) kvs)"
| "py_iter _ = Inl TypeError"


section \<open>The study, the field and the data point\<close>

text \<open>Modelled from the spec: the class \<^verbatim>\<open>CastorStudy\<close> is not among the sources. Of the
  study, the module reads \<^verbatim>\<open>configuration\<close> (the format strings under the keys
  \<^verbatim>\<open>"date"\<close>, \<^verbatim>\<open>"time"\<close> and \<^verbatim>\<open>"datetime"\<close>), the flag \<^verbatim>\<open>pass_keyerrors\<close> and the
  method \<^verbatim>\<open>get_single_optiongroup\<close>, which returns \<^verbatim>\<open>None\<close> for an id it does not know.\<close>

record castor_study =
  configuration :: "string \<Rightarrow> string"
  pass_keyerrors :: bool
  get_single_optiongroup :: "pyval \<Rightarrow> optiongroup option"

text \<open>Modelled from the spec: the class \<^verbatim>\<open>CastorField\<close> is not among the sources. Of the
  field, the module reads the name, the type tag, the id of the option group and, for a
  grid, the summary template (a JSON string).\<close>

record castor_field =
  field_name :: string
  field_type :: pyval
  field_option_group :: pyval
  field_summary_template :: string

text \<open>The attributes \<^verbatim>\<open>field_id\<close>, \<^verbatim>\<open>raw_value\<close> and \<^verbatim>\<open>instance_of\<close> of a
  \<^verbatim>\<open>CastorDataPoint\<close> (here \<open>self\<close>), which interpretation reads.\<close>

record castor_data_point =
  self_field_id :: string
  self_raw_value :: pyval
  self_instance_of :: castor_field

text \<open>What interpretation returns: a Python object, or for a grid a table with the labels
  of its rows, the labels of its columns and its cells by rows.\<close>

datatype interpreted =
    Value pyval
  | Table "string list" "string list" "pyval list list"

definition str_result :: "error + string \<Rightarrow> error + pyval" where
  "str_result m = err_bind m (\<lambda>s. Inr (PStr s))"

text \<open>\<^verbatim>\<open>try: body  except ValueError: handler\<close>\<close>

definition except_ValueError :: "error + 'a \<Rightarrow> error + 'a \<Rightarrow> error + 'a" where
  "except_ValueError body handler =
     (case body of
        Inl e \<Rightarrow> if isinstance_ValueError e then handler else Inl e
      | Inr v \<Rightarrow> Inr v)"

text \<open>\<^verbatim>\<open>{item["value"]: item["name"] for item in options}\<close>: of two items with the same
  value, the later one stays.\<close>

definition dict_of :: "optiongroup \<Rightarrow> (string \<rightharpoonup> string)" where
  "dict_of opts = map_of (rev opts)"

text \<open>\<^verbatim>\<open>link.get(value, value)\<close>\<close>

definition dict_get ::
  "(string \<rightharpoonup> string) \<Rightarrow> string \<Rightarrow> string" where
  "dict_get link v = (case link v of Some n \<Rightarrow> n | None \<Rightarrow> v)"

section \<open>The standalone functions\<close>

text \<open>The function \<^verbatim>\<open>interpret_time\<close>\<close>

definition interpret_time ::
  "pylib \<Rightarrow> string \<Rightarrow> pyval \<Rightarrow> error + pyval" where
  "interpret_time L time_format raw_value =
    (if raw_value = PStr [] then Inr (PStr [])
     else if \<not> is_container raw_value then Inl TypeError
     else if py_in ''Missing'' raw_value then
       (if py_in ''measurement failed'' raw_value then Inr (PStr ''-95'')
        else if py_in ''not applicable'' raw_value then Inr (PStr ''-96'')
        else if py_in ''not asked'' raw_value then Inr (PStr ''-97'')
        else if py_in ''asked but unknown'' raw_value then Inr (PStr ''-98'')
        else if py_in ''not done'' raw_value then Inr (PStr ''-99'')
        else Inr (PStr ''Missing value not recognized''))
     else
       err_bind (py_strptime L raw_value ''%H:%M'')
         (\<lambda>dt. str_result (time_strftime L (time_of dt) time_format)))"

text \<open>The function \<^verbatim>\<open>interpret_datetime\<close>\<close>

definition interpret_datetime ::
  "pylib \<Rightarrow> string \<Rightarrow> pyval \<Rightarrow> error + pyval" where
  "interpret_datetime L datetime_format raw_value =
    (if raw_value = PStr [] then Inr (PFloat NaN)
     else if \<not> is_container raw_value then Inl TypeError
     else if py_in ''Missing'' raw_value then
       (if py_in ''measurement failed'' raw_value then
         str_result (period_strftime L (Period_ymd 2995 1 1 FreqS) datetime_format)
        else if py_in ''not applicable'' raw_value then
          str_result (period_strftime L (Period_ymd 2996 1 1 FreqS) datetime_format)
        else if py_in ''not asked'' raw_value then
          str_result (period_strftime L (Period_ymd 2997 1 1 FreqS) datetime_format)
        else if py_in ''asked but unknown'' raw_value then
          str_result (period_strftime L (Period_ymd 2998 1 1 FreqS) datetime_format)
        else if py_in ''not done'' raw_value then
          str_result (period_strftime L (Period_ymd 2999 1 1 FreqS) datetime_format)
        else Inr (PStr ''Missing value not recognized''))
     else
       except_ValueError
         (err_bind (py_strptime L raw_value ''%d-%m-%Y;%H:%M'')
            (\<lambda>dt. str_result (period_strftime L (Period_of dt FreqS) datetime_format)))
         (err_bind (py_strptime L raw_value ''%d-%m-%Y'')
            (\<lambda>dt. str_result (period_strftime L (Period_of dt FreqS) datetime_format))))"

text \<open>The function \<^verbatim>\<open>interpret_date\<close>\<close>

definition interpret_date ::
  "pylib \<Rightarrow> string \<Rightarrow> pyval \<Rightarrow> error + pyval" where
  "interpret_date L date_format raw_value =
    (if raw_value = PStr [] then Inr (PFloat NaN)
     else if \<not> is_container raw_value then Inl TypeError
     else if py_in ''Missing'' raw_value then
       (if py_in ''measurement failed'' raw_value then
         str_result (period_strftime L (Period_ymd 2995 1 1 FreqD) date_format)
        else if py_in ''not applicable'' raw_value then
          str_result (period_strftime L (Period_ymd 2996 1 1 FreqD) date_format)
        else if py_in ''not asked'' raw_value then
          str_result (period_strftime L (Period_ymd 2997 1 1 FreqD) date_format)
        else if py_in ''asked but unknown'' raw_value then
          str_result (period_strftime L (Period_ymd 2998 1 1 FreqD) date_format)
        else if py_in ''not done'' raw_value then
          str_result (period_strftime L (Period_ymd 2999 1 1 FreqD) date_format)
        else Inr (PStr ''Missing value not recognized''))
     else
       except_ValueError
         (err_bind (py_strptime L raw_value ''%d-%m-%Y'')
            (\<lambda>dt. str_result (period_strftime L (Period_of dt FreqD) date_format)))
         (err_bind (py_strptime L raw_value ''%d-%m-%Y;%H:%M'')
            (\<lambda>dt. str_result (period_strftime L (Period_of dt FreqS) ''%d-%m-%Y;%H:%M''))))"

text \<open>The function \<^verbatim>\<open>interpret_optiongroup_helper\<close>\<close>

definition interpret_optiongroup_helper ::
  "castor_study \<Rightarrow> castor_field \<Rightarrow> pyval \<Rightarrow> error + pyval" where
  "interpret_optiongroup_helper study instance_of raw_value =
    (let optiongroup = field_option_group instance_of in
     case get_single_optiongroup study optiongroup of
       None \<Rightarrow> Inl (CastorException OptiongroupNotFound)
     | Some study_optiongroup \<Rightarrow>
         (let link = dict_of study_optiongroup in
          err_bind (py_split raw_value (CHR '';''))
            (\<lambda>value_list.
               err_bind
                 (if value_list = [[]] then Inr [[]]
                  else if pass_keyerrors study then Inr (map (dict_get link) value_list)
                  else (case those (map link value_list) of
                          Some new_values \<Rightarrow> Inr new_values
                        | None \<Rightarrow>
                            Inl (CastorException
                                   (OptionalValueMappingFailed study_optiongroup raw_value None))))
                 (\<lambda>new_values. Inr (PStr (str_join ''|'' new_values))))))"

text \<open>The function \<^verbatim>\<open>interpret_optiongroup\<close>\<close>

definition interpret_optiongroup ::
  "castor_study \<Rightarrow> castor_field \<Rightarrow> pyval \<Rightarrow> error + pyval" where
  "interpret_optiongroup study instance_of raw_value =
    (if raw_value = PStr [] then Inr (PStr [])
     else if \<not> is_container raw_value then Inl TypeError
     else if py_in ''Missing'' raw_value then
       (if py_in ''measurement failed'' raw_value then Inr (PStr ''measurement failed'')
        else if py_in ''not applicable'' raw_value then Inr (PStr ''not applicable'')
        else if py_in ''not asked'' raw_value then Inr (PStr ''not asked'')
        else if py_in ''asked but unknown'' raw_value then Inr (PStr ''asked but unknown'')
        else if py_in ''not done'' raw_value then Inr (PStr ''not done'')
        else Inr (PStr ''Missing value not recognized''))
     else
       interpret_optiongroup_helper study instance_of raw_value)"

text \<open>The function \<^verbatim>\<open>interpret_numeric\<close>\<close>

definition interpret_numeric :: "pylib \<Rightarrow> pyval \<Rightarrow> error + pyval" where
  "interpret_numeric L raw_value =
    (if raw_value = PStr [] then Inr (PFloat NaN)
     else if \<not> is_container raw_value then Inl TypeError
     else if py_in ''Missing'' raw_value then
       (if py_in ''measurement failed'' raw_value then Inr (PInt (- 95))
        else if py_in ''not applicable'' raw_value then Inr (PInt (- 96))
        else if py_in ''not asked'' raw_value then Inr (PInt (- 97))
        else if py_in ''asked but unknown'' raw_value then Inr (PInt (- 98))
        else if py_in ''not done'' raw_value then Inr (PInt (- 99))
        else Inr (PStr ''Missing value not recognized''))
     else
       err_bind (py_float L raw_value) (\<lambda>x. Inr (PFloat x)))"

text \<open>The function \<^verbatim>\<open>interpret_year\<close>\<close>

definition interpret_year :: "pylib \<Rightarrow> pyval \<Rightarrow> error + pyval" where
  "interpret_year L raw_value =
    (if raw_value = PStr [] then Inr (PFloat NaN)
     else if \<not> is_container raw_value then Inl TypeError
     else if py_in ''Missing'' raw_value then
       (if py_in ''measurement failed'' raw_value then Inr (PInt (- 95))
        else if py_in ''not applicable'' raw_value then Inr (PInt (- 96))
        else if py_in ''not asked'' raw_value then Inr (PInt (- 97))
        else if py_in ''asked but unknown'' raw_value then Inr (PInt (- 98))
        else if py_in ''not done'' raw_value then Inr (PInt (- 99))
        else Inr (PStr ''Missing value not recognized''))
     else
       err_bind (py_int L raw_value) (\<lambda>x. Inr (PInt x)))"

text \<open>The function \<^verbatim>\<open>interpret_numberdate\<close>; unpacking the split into two names raises
  \<^verbatim>\<open>ValueError\<close> unless it has two parts.\<close>

definition interpret_numberdate ::
  "pylib \<Rightarrow> string \<Rightarrow> pyval \<Rightarrow> error + pyval" where
  "interpret_numberdate L date_format raw_value =
    (if raw_value = PStr [] then Inr (PList [PFloat NaN, PFloat NaN])
     else if \<not> is_container raw_value then Inl TypeError
     else if py_in ''Missing'' raw_value then
       (if py_in ''measurement failed'' raw_value then
         err_bind (period_strftime L (Period_ymd 2995 1 1 FreqD) date_format)
            (\<lambda>s. Inr (PList [PInt (- 95), PStr s]))
        else if py_in ''not applicable'' raw_value then
          err_bind (period_strftime L (Period_ymd 2996 1 1 FreqD) date_format)
            (\<lambda>s. Inr (PList [PInt (- 96), PStr s]))
        else if py_in ''not asked'' raw_value then
          err_bind (period_strftime L (Period_ymd 2997 1 1 FreqD) date_format)
            (\<lambda>s. Inr (PList [PInt (- 97), PStr s]))
        else if py_in ''asked but unknown'' raw_value then
          err_bind (period_strftime L (Period_ymd 2998 1 1 FreqD) date_format)
            (\<lambda>s. Inr (PList [PInt (- 98), PStr s]))
        else if py_in ''not done'' raw_value then
          err_bind (period_strftime L (Period_ymd 2999 1 1 FreqD) date_format)
            (\<lambda>s. Inr (PList [PInt (- 99), PStr s]))
        else Inr (PList [PStr ''Missing value not recognized'', PStr ''Missing value not recognized'']))
     else
       err_bind (py_split raw_value (CHR '';''))
         (\<lambda>parts.
            case parts of
              [number, date] \<Rightarrow>
                (let number = (if number = [] then PFloat NaN else PStr number);
                     date = (if date = [] then PFloat NaN else PStr date)
                 in err_bind (py_float L number)
                      (\<lambda>x. err_bind (py_strptime L date ''%d-%m-%Y'')
                         (\<lambda>dt. err_bind (period_strftime L (Period_of dt FreqD) date_format)
                            (\<lambda>s. Inr (PList [PFloat x, PStr s])))))
            | _ \<Rightarrow> Inl ValueError))"

text \<open>The function \<^verbatim>\<open>interpret\<close> (the name is a keyword of Isabelle, hence the suffix):
  the dispatch on the type tag of the field. It has no branch for a grid.\<close>

definition interpret_value ::
  "pylib \<Rightarrow> castor_study \<Rightarrow> castor_field \<Rightarrow> pyval \<Rightarrow> error + pyval" where
  "interpret_value L study instance_of raw_value =
    (if field_type instance_of \<in> {PStr ''checkbox'', PStr ''dropdown'', PStr ''radio''} then
       interpret_optiongroup study instance_of raw_value
     else if field_type instance_of \<in> {PStr ''numeric'', PStr ''slider'', PStr ''randomization''} then
       interpret_numeric L raw_value
     else if field_type instance_of \<in> {PStr ''year''} then
       interpret_year L raw_value
     else if field_type instance_of \<in>
         {PStr ''string'', PStr ''textarea'', PStr ''upload'', PStr ''calculation''} then
       Inr raw_value
     else if field_type instance_of \<in> {PStr ''datetime''} then
       interpret_datetime L (configuration study ''datetime'') raw_value
     else if field_type instance_of \<in> {PStr ''date''} then
       interpret_date L (configuration study ''date'') raw_value
     else if field_type instance_of \<in> {PStr ''time''} then
       interpret_time L (configuration study ''time'') raw_value
     else if field_type instance_of \<in> {PStr ''numberdate''} then
       interpret_numberdate L (configuration study ''date'') raw_value
     else Inr (PStr ''Error''))"

section \<open>The methods of CastorDataPoint\<close>

text \<open>The method \<^verbatim>\<open>__interpret_time\<close>\<close>

definition CastorDataPoint_interpret_time ::
  "pylib \<Rightarrow> string \<Rightarrow> castor_data_point \<Rightarrow> error + pyval" where
  "CastorDataPoint_interpret_time L time_format self =
    (if (self_raw_value self) = PStr [] then Inr (PStr [])
     else if \<not> is_container (self_raw_value self) then Inl TypeError
     else if py_in ''Missing'' (self_raw_value self) then
       (if py_in ''measurement failed'' (self_raw_value self) then Inr (PStr ''-95'')
        else if py_in ''not applicable'' (self_raw_value self) then Inr (PStr ''-96'')
        else if py_in ''not asked'' (self_raw_value self) then Inr (PStr ''-97'')
        else if py_in ''asked but unknown'' (self_raw_value self) then Inr (PStr ''-98'')
        else if py_in ''not done'' (self_raw_value self) then Inr (PStr ''-99'')
        else Inr (PStr ''Missing value not recognized''))
     else
       err_bind (py_strptime L (self_raw_value self) ''%H:%M'')
         (\<lambda>dt. str_result (time_strftime L (time_of dt) time_format)))"

text \<open>The method \<^verbatim>\<open>__interpret_datetime\<close>\<close>

definition CastorDataPoint_interpret_datetime ::
  "pylib \<Rightarrow> string \<Rightarrow> castor_data_point \<Rightarrow> error + pyval" where
  "CastorDataPoint_interpret_datetime L datetime_format self =
    (if (self_raw_value self) = PStr [] then Inr (PFloat NaN)
     else if \<not> is_container (self_raw_value self) then Inl TypeError
     else if py_in ''Missing'' (self_raw_value self) then
       (if py_in ''measurement failed'' (self_raw_value self) then
         str_result (period_strftime L (Period_ymd 2995 1 1 FreqS) datetime_format)
        else if py_in ''not applicable'' (self_raw_value self) then
          str_result (period_strftime L (Period_ymd 2996 1 1 FreqS) datetime_format)
        else if py_in ''not asked'' (self_raw_value self) then
          str_result (period_strftime L (Period_ymd 2997 1 1 FreqS) datetime_format)
        else if py_in ''asked but unknown'' (self_raw_value self) then
          str_result (period_strftime L (Period_ymd 2998 1 1 FreqS) datetime_format)
        else if py_in ''not done'' (self_raw_value self) then
          str_result (period_strftime L (Period_ymd 2999 1 1 FreqS) datetime_format)
        else Inr (PStr ''Missing value not recognized''))
     else
       except_ValueError
         (err_bind (py_strptime L (self_raw_value self) ''%d-%m-%Y;%H:%M'')
            (\<lambda>dt. str_result (period_strftime L (Period_of dt FreqS) datetime_format)))
         (err_bind (py_strptime L (self_raw_value self) ''%d-%m-%Y'')
            (\<lambda>dt. str_result (period_strftime L (Period_of dt FreqS) datetime_format))))"

text \<open>The method \<^verbatim>\<open>__interpret_date\<close>\<close>

definition CastorDataPoint_interpret_date ::
  "pylib \<Rightarrow> string \<Rightarrow> castor_data_point \<Rightarrow> error + pyval" where
  "CastorDataPoint_interpret_date L date_format self =
    (if (self_raw_value self) = PStr [] then Inr (PFloat NaN)
     else if \<not> is_container (self_raw_value self) then Inl TypeError
     else if py_in ''Missing'' (self_raw_value self) then
       (if py_in ''measurement failed'' (self_raw_value self) then
         str_result (period_strftime L (Period_ymd 2995 1 1 FreqD) date_format)
        else if py_in ''not applicable'' (self_raw_value self) then
          str_result (period_strftime L (Period_ymd 2996 1 1 FreqD) date_format)
        else if py_in ''not asked'' (self_raw_value self) then
          str_result (period_strftime L (Period_ymd 2997 1 1 FreqD) date_format)
        else if py_in ''asked but unknown'' (self_raw_value self) then
          str_result (period_strftime L (Period_ymd 2998 1 1 FreqD) date_format)
        else if py_in ''not done'' (self_raw_value self) then
          str_result (period_strftime L (Period_ymd 2999 1 1 FreqD) date_format)
        else Inr (PStr ''Missing value not recognized''))
     else
       except_ValueError
         (err_bind (py_strptime L (self_raw_value self) ''%d-%m-%Y'')
            (\<lambda>dt. str_result (period_strftime L (Period_of dt FreqD) date_format)))
         (err_bind (py_strptime L (self_raw_value self) ''%d-%m-%Y;%H:%M'')
            (\<lambda>dt. str_result (period_strftime L (Period_of dt FreqS) ''%d-%m-%Y;%H:%M''))))"

text \<open>The method \<^verbatim>\<open>__interpret_optiongroup_helper\<close>\<close>

definition CastorDataPoint_interpret_optiongroup_helper ::
  "castor_study \<Rightarrow> castor_data_point \<Rightarrow> error + pyval" where
  "CastorDataPoint_interpret_optiongroup_helper study self =
    (let optiongroup = field_option_group (self_instance_of self) in
     case get_single_optiongroup study optiongroup of
       None \<Rightarrow> Inl (CastorException OptiongroupNotFound)
     | Some study_optiongroup \<Rightarrow>
         (let link = dict_of study_optiongroup in
          err_bind (py_split (self_raw_value self) (CHR '';''))
            (\<lambda>value_list.
               err_bind
                 (if value_list = [[]] then Inr [[]]
                  else if pass_keyerrors study then Inr (map (dict_get link) value_list)
                  else (case those (map link value_list) of
                          Some new_values \<Rightarrow> Inr new_values
                        | None \<Rightarrow>
                            Inl (CastorException
                                   (OptionalValueMappingFailed study_optiongroup (self_raw_value self) (Some (self_field_id self, field_name (self_instance_of self)))))))
                 (\<lambda>new_values. Inr (PStr (str_join ''|'' new_values))))))"

text \<open>The method \<^verbatim>\<open>__interpret_optiongroup\<close>\<close>

definition CastorDataPoint_interpret_optiongroup ::
  "castor_study \<Rightarrow> castor_data_point \<Rightarrow> error + pyval" where
  "CastorDataPoint_interpret_optiongroup study self =
    (if (self_raw_value self) = PStr [] then Inr (PStr [])
     else if \<not> is_container (self_raw_value self) then Inl TypeError
     else if py_in ''Missing'' (self_raw_value self) then
       (if py_in ''measurement failed'' (self_raw_value self) then Inr (PStr ''measurement failed'')
        else if py_in ''not applicable'' (self_raw_value self) then Inr (PStr ''not applicable'')
        else if py_in ''not asked'' (self_raw_value self) then Inr (PStr ''not asked'')
        else if py_in ''asked but unknown'' (self_raw_value self) then
          Inr (PStr ''asked but unknown'')
        else if py_in ''not done'' (self_raw_value self) then Inr (PStr ''not done'')
        else Inr (PStr ''Missing value not recognized''))
     else
       CastorDataPoint_interpret_optiongroup_helper study self)"

text \<open>The method \<^verbatim>\<open>__interpret_numeric\<close>\<close>

definition CastorDataPoint_interpret_numeric :: "pylib \<Rightarrow> castor_data_point \<Rightarrow> error + pyval" where
  "CastorDataPoint_interpret_numeric L self =
    (if (self_raw_value self) = PStr [] then Inr (PFloat NaN)
     else if \<not> is_container (self_raw_value self) then Inl TypeError
     else if py_in ''Missing'' (self_raw_value self) then
       (if py_in ''measurement failed'' (self_raw_value self) then Inr (PInt (- 95))
        else if py_in ''not applicable'' (self_raw_value self) then Inr (PInt (- 96))
        else if py_in ''not asked'' (self_raw_value self) then Inr (PInt (- 97))
        else if py_in ''asked but unknown'' (self_raw_value self) then Inr (PInt (- 98))
        else if py_in ''not done'' (self_raw_value self) then Inr (PInt (- 99))
        else Inr (PStr ''Missing value not recognized''))
     else
       err_bind (py_float L (self_raw_value self)) (\<lambda>x. Inr (PFloat x)))"

text \<open>The method \<^verbatim>\<open>__interpret_year\<close>\<close>

definition CastorDataPoint_interpret_year :: "pylib \<Rightarrow> castor_data_point \<Rightarrow> error + pyval" where
  "CastorDataPoint_interpret_year L self =
    (if (self_raw_value self) = PStr [] then Inr (PFloat NaN)
     else if \<not> is_container (self_raw_value self) then Inl TypeError
     else if py_in ''Missing'' (self_raw_value self) then
       (if py_in ''measurement failed'' (self_raw_value self) then Inr (PInt (- 95))
        else if py_in ''not applicable'' (self_raw_value self) then Inr (PInt (- 96))
        else if py_in ''not asked'' (self_raw_value self) then Inr (PInt (- 97))
        else if py_in ''asked but unknown'' (self_raw_value self) then Inr (PInt (- 98))
        else if py_in ''not done'' (self_raw_value self) then Inr (PInt (- 99))
        else Inr (PStr ''Missing value not recognized''))
     else
       err_bind (py_int L (self_raw_value self)) (\<lambda>x. Inr (PInt x)))"

text \<open>The method \<^verbatim>\<open>__interpret_numberdate\<close>; unpacking the split into two names raises
  \<^verbatim>\<open>ValueError\<close> unless it has two parts.\<close>

definition CastorDataPoint_interpret_numberdate ::
  "pylib \<Rightarrow> string \<Rightarrow> castor_data_point \<Rightarrow> error + pyval" where
  "CastorDataPoint_interpret_numberdate L date_format self =
    (if (self_raw_value self) = PStr [] then Inr (PList [PFloat NaN, PFloat NaN])
     else if \<not> is_container (self_raw_value self) then Inl TypeError
     else if py_in ''Missing'' (self_raw_value self) then
       (if py_in ''measurement failed'' (self_raw_value self) then
         err_bind (period_strftime L (Period_ymd 2995 1 1 FreqD) date_format)
            (\<lambda>s. Inr (PList [PInt (- 95), PStr s]))
        else if py_in ''not applicable'' (self_raw_value self) then
          err_bind (period_strftime L (Period_ymd 2996 1 1 FreqD) date_format)
            (\<lambda>s. Inr (PList [PInt (- 96), PStr s]))
        else if py_in ''not asked'' (self_raw_value self) then
          err_bind (period_strftime L (Period_ymd 2997 1 1 FreqD) date_format)
            (\<lambda>s. Inr (PList [PInt (- 97), PStr s]))
        else if py_in ''asked but unknown'' (self_raw_value self) then
          err_bind (period_strftime L (Period_ymd 2998 1 1 FreqD) date_format)
            (\<lambda>s. Inr (PList [PInt (- 98), PStr s]))
        else if py_in ''not done'' (self_raw_value self) then
          err_bind (period_strftime L (Period_ymd 2999 1 1 FreqD) date_format)
            (\<lambda>s. Inr (PList [PInt (- 99), PStr s]))
        else Inr (PList [PStr ''Missing value not recognized'', PStr ''Missing value not recognized'']))
     else
       err_bind (py_split (self_raw_value self) (CHR '';''))
         (\<lambda>parts.
            case parts of
              [number, date] \<Rightarrow>
                (let number = (if number = [] then PFloat NaN else PStr number);
                     date = (if date = [] then PFloat NaN else PStr date)
                 in err_bind (py_float L number)
                      (\<lambda>x. err_bind (py_strptime L date ''%d-%m-%Y'')
                         (\<lambda>dt. err_bind (period_strftime L (Period_of dt FreqD) date_format)
                            (\<lambda>s. Inr (PList [PFloat x, PStr s])))))
            | _ \<Rightarrow> Inl ValueError))"


subsection \<open>The grid\<close>

text \<open>The inner \<^verbatim>\<open>try\<close> of \<^verbatim>\<open>__interpret_grid\<close>:
  \<^verbatim>\<open>grid_rows = list(json.loads(self.raw_value).values())\<close>. Its handler for
  \<^verbatim>\<open>JSONDecodeError\<close> prints the raw value and binds nothing, so the next statement,
  which reads \<^verbatim>\<open>grid_rows\<close>, raises \<^verbatim>\<open>UnboundLocalError\<close>. (The printing is not
  modelled.)\<close>

definition grid_rows_of :: "pylib \<Rightarrow> pyval \<Rightarrow> error + pyval list" where
  "grid_rows_of L raw_value =
     (case err_bind (py_json_loads L raw_value) py_values of
        Inl e \<Rightarrow> if e = JSONDecodeError then Inl UnboundLocalError else Inl e
      | Inr grid_rows \<Rightarrow> Inr grid_rows)"

text \<open>\<^verbatim>\<open>[name.split(' ')[0] for name in grid_template[key]]\<close>\<close>

definition name_check :: "pyval \<Rightarrow> string \<Rightarrow> error + string list" where
  "name_check grid_template key =
     err_bind (py_getitem grid_template key)
       (\<lambda>names. err_bind (py_iter names)
          (err_map (\<lambda>name. err_bind (py_split name (CHR '' ''))
             (\<lambda>parts. case parts of [] \<Rightarrow> Inl IndexError | t # ts \<Rightarrow> Inr t))))"

text \<open>\<^verbatim>\<open>all(x == check[0] for x in check)\<close>: true of the empty list, where
  \<^verbatim>\<open>check[0]\<close> is never evaluated.\<close>

definition all_first :: "string list \<Rightarrow> bool" where
  "all_first check = (case check of [] \<Rightarrow> True | c # cs \<Rightarrow> list_all (\<lambda>x. x = c) check)"

text \<open>The orientation of the table (the \<^verbatim>\<open>if\<close> on its shape): the table, kept or
  transposed, with \<^verbatim>\<open>row_names\<close> and \<^verbatim>\<open>col_names\<close>. Of a square table whose column
  names and row names both fail the check, the two names stay unbound (\<open>None\<close>).\<close>

definition grid_orient ::
  "pyval \<Rightarrow> dataframe \<Rightarrow> error + (dataframe \<times> pyval option \<times> pyval option)" where
  "grid_orient grid_template raw_grid_df =
     (if shape0 raw_grid_df \<noteq> shape1 raw_grid_df then
        err_bind (py_getitem grid_template ''fieldTypes'')
          (\<lambda>field_types. err_bind (py_len field_types)
             (\<lambda>n.
                if n = shape1 raw_grid_df then
                  err_bind (py_getitem grid_template ''rowNames'')
                    (\<lambda>row_names. err_bind (py_getitem grid_template ''columnNames'')
                       (\<lambda>col_names. Inr (raw_grid_df, Some row_names, Some col_names)))
                else
                  err_bind (py_getitem grid_template ''columnNames'')
                    (\<lambda>row_names. err_bind (py_getitem grid_template ''rowNames'')
                       (\<lambda>col_names. Inr (df_T raw_grid_df, Some row_names, Some col_names)))))
      else
        err_bind (name_check grid_template ''columnNames'')
          (\<lambda>col_check. err_bind (name_check grid_template ''rowNames'')
             (\<lambda>row_check.
                if all_first col_check then
                  err_bind (py_getitem grid_template ''columnNames'')
                    (\<lambda>row_names. err_bind (py_getitem grid_template ''rowNames'')
                       (\<lambda>col_names. Inr (df_T raw_grid_df, Some row_names, Some col_names)))
                else if all_first row_check then
                  err_bind (py_getitem grid_template ''rowNames'')
                    (\<lambda>row_names. err_bind (py_getitem grid_template ''columnNames'')
                       (\<lambda>col_names. Inr (raw_grid_df, Some row_names, Some col_names)))
                else Inr (raw_grid_df, None, None))))"

text \<open>Modelled from the spec: the constructor of \<^verbatim>\<open>CastorField\<close> is not among the sources.
  The call in the loop builds the synthetic descriptor of a cell from the name, the field
  type and the option group.\<close>

definition CastorField ::
  "string \<Rightarrow> pyval \<Rightarrow> pyval \<Rightarrow> castor_field" where
  "CastorField name ftype option_group =
     \<lparr>field_name = name, field_type = ftype, field_option_group = option_group,
      field_summary_template = []\<rparr>"

text \<open>One round of the loop \<^verbatim>\<open>for col_num, col in enumerate(raw_grid_df.columns)\<close>: the
  interpreted cells of the column at \<open>col_num\<close>.\<close>

definition grid_column ::
  "pylib \<Rightarrow> castor_study \<Rightarrow> castor_data_point \<Rightarrow> pyval \<Rightarrow> dataframe \<Rightarrow> nat
    \<Rightarrow> error + pyval list" where
  "grid_column L study self grid_template raw_grid_df col_num =
     (let col_data = df_column raw_grid_df col_num in
      err_bind (py_getitem grid_template ''fieldTypes'')
        (\<lambda>field_types. err_bind (py_index field_types col_num)
           (\<lambda>ftype. err_bind (py_getitem grid_template ''optionLists'')
              (\<lambda>option_lists. err_bind (py_index option_lists col_num)
                 (\<lambda>option_group.
                    let my_instance_of =
                      CastorField (field_name (self_instance_of self) @ '' - grid object'')
                        ftype option_group
                    in err_map (interpret_value L study my_instance_of) col_data)))))"

text \<open>The whole loop: \<^verbatim>\<open>cols_interpreted\<close>.\<close>

definition grid_columns ::
  "pylib \<Rightarrow> castor_study \<Rightarrow> castor_data_point \<Rightarrow> pyval \<Rightarrow> dataframe
    \<Rightarrow> error + pyval list list" where
  "grid_columns L study self grid_template raw_grid_df =
     err_map (grid_column L study self grid_template raw_grid_df) [0..<shape1 raw_grid_df]"

text \<open>The end of the \<^verbatim>\<open>try\<close>: \<^verbatim>\<open>pd.DataFrame(cols_interpreted).T\<close>, then the labels of
  the columns and of the rows, each list of the length of its axis.\<close>

definition grid_assemble ::
  "pylib \<Rightarrow> pyval list list \<Rightarrow> pyval option \<Rightarrow> pyval option \<Rightarrow> error + interpreted" where
  "grid_assemble L cols_interpreted row_names col_names =
     err_bind (DataFrame L (map PList cols_interpreted))
       (\<lambda>d. let grid_df = df_T d in
          case col_names of
            None \<Rightarrow> Inl UnboundLocalError
          | Some cn \<Rightarrow>
              err_bind (err_bind (py_iter cn) (err_map py_strip))
                (\<lambda>columns.
                   if length columns \<noteq> shape1 grid_df then Inl ValueError
                   else
                     (case row_names of
                        None \<Rightarrow> Inl UnboundLocalError
                      | Some rn \<Rightarrow>
                          err_bind (err_bind (py_iter rn) (err_map py_strip))
                            (\<lambda>index.
                               if length index \<noteq> shape0 grid_df then Inl ValueError
                               else Inr (Table index columns (df_rows grid_df))))))"

text \<open>The body of the outer \<^verbatim>\<open>try\<close> of \<^verbatim>\<open>__interpret_grid\<close>.\<close>

definition grid_try ::
  "pylib \<Rightarrow> castor_study \<Rightarrow> castor_data_point \<Rightarrow> error + interpreted" where
  "grid_try L study self =
     err_bind (json_loads L (field_summary_template (self_instance_of self)))
       (\<lambda>grid_template. err_bind (grid_rows_of L (self_raw_value self))
          (\<lambda>grid_rows. err_bind (DataFrame L grid_rows)
             (\<lambda>raw_grid_df. err_bind (grid_orient grid_template raw_grid_df)
                (\<lambda>(oriented, row_names, col_names).
                   err_bind (grid_columns L study self grid_template oriented)
                     (\<lambda>cols_interpreted.
                        grid_assemble L cols_interpreted row_names col_names)))))"

text \<open>The method \<^verbatim>\<open>__interpret_grid\<close>: the bare \<^verbatim>\<open>except\<close> turns every exception of
  the body into the string \<^verbatim>\<open>"Error"\<close>.\<close>

definition CastorDataPoint_interpret_grid ::
  "pylib \<Rightarrow> castor_study \<Rightarrow> castor_data_point \<Rightarrow> error + interpreted" where
  "CastorDataPoint_interpret_grid L study self =
     (if self_raw_value self = PStr [] \<or> field_summary_template (self_instance_of self) = [] then
        Inr (Value (PFloat NaN))
      else
        (case grid_try L study self of
           Inl e \<Rightarrow> Inr (Value (PStr ''Error''))
         | Inr new_value \<Rightarrow> Inr new_value))"

subsection \<open>The dispatch\<close>

definition as_value :: "error + pyval \<Rightarrow> error + interpreted" where
  "as_value m = err_bind m (\<lambda>v. Inr (Value v))"

text \<open>The method \<^verbatim>\<open>__interpret\<close>\<close>

definition CastorDataPoint_interpret ::
  "pylib \<Rightarrow> castor_study \<Rightarrow> castor_data_point \<Rightarrow> error + interpreted" where
  "CastorDataPoint_interpret L study self =
    (if field_type (self_instance_of self) \<in>
         {PStr ''checkbox'', PStr ''dropdown'', PStr ''radio''} then
       as_value (CastorDataPoint_interpret_optiongroup study self)
     else if field_type (self_instance_of self) \<in>
         {PStr ''numeric'', PStr ''slider'', PStr ''randomization''} then
       as_value (CastorDataPoint_interpret_numeric L self)
     else if field_type (self_instance_of self) \<in> {PStr ''year''} then
       as_value (CastorDataPoint_interpret_year L self)
     else if field_type (self_instance_of self) \<in>
         {PStr ''string'', PStr ''textarea'', PStr ''upload'', PStr ''calculation''} then
       Inr (Value (self_raw_value self))
     else if field_type (self_instance_of self) \<in> {PStr ''datetime''} then
       as_value (CastorDataPoint_interpret_datetime L (configuration study ''datetime'') self)
     else if field_type (self_instance_of self) \<in> {PStr ''date''} then
       as_value (CastorDataPoint_interpret_date L (configuration study ''date'') self)
     else if field_type (self_instance_of self) \<in> {PStr ''time''} then
       as_value (CastorDataPoint_interpret_time L (configuration study ''time'') self)
     else if field_type (self_instance_of self) \<in> {PStr ''numberdate''} then
       as_value (CastorDataPoint_interpret_numberdate L (configuration study ''date'') self)
     else if field_type (self_instance_of self) \<in> {PStr ''grid''} then
       CastorDataPoint_interpret_grid L study self
     else Inr (Value (PStr ''Error'')))"

section \<open>A reference instance of the library\<close>

text \<open>
  Executable definitions of the library functions, after the documentation of Python and
  pandas, for the examples below. Where a definition does not cover an input, it answers
  \<^verbatim>\<open>OtherException ''not modelled''\<close>; no example reaches such an answer.
\<close>

definition is_digit :: "char \<Rightarrow> bool" where
  "is_digit c = (c \<in> set ''0123456789'')"

definition digit_val :: "char \<Rightarrow> nat" where
  "digit_val c = of_char c - 48"

definition nat_of_digits :: "string \<Rightarrow> nat" where
  "nat_of_digits ds = foldl (\<lambda>a c. 10 * a + digit_val c) 0 ds"

text \<open>\<^verbatim>\<open>digitpart ::= digit (["_"] digit)*\<close>\<close>

fun digitpart :: "string \<Rightarrow> bool" where
  "digitpart [] = False"
| "digitpart [c] = is_digit c"
| "digitpart (c # d # cs) =
     (is_digit c \<and> (if d = CHR ''_'' then digitpart cs else digitpart (d # cs)))"

definition ascii_lower :: "char \<Rightarrow> char" where
  "ascii_lower c =
     (case map_of (zip ''ABCDEFGHIJKLMNOPQRSTUVWXYZ'' ''abcdefghijklmnopqrstuvwxyz'') c of
        Some l \<Rightarrow> l
      | None \<Rightarrow> c)"

text \<open>An optional sign in front: whether it is a minus, and the rest.\<close>

fun take_sign :: "string \<Rightarrow> bool \<times> string" where
  "take_sign [] = (False, [])"
| "take_sign (c # cs) =
     (if c = CHR ''-'' then (True, cs) else if c = CHR ''+'' then (False, cs) else (False, c # cs))"

text \<open>\<^verbatim>\<open>number ::= [digitpart] "." digitpart | digitpart ["."]\<close>: the digits and how many
  of them stand behind the point.\<close>

definition parse_number :: "string \<Rightarrow> (string \<times> nat) option" where
  "parse_number m =
     (let ip = takeWhile (\<lambda>c. c \<noteq> CHR ''.'') m; rest = dropWhile (\<lambda>c. c \<noteq> CHR ''.'') m in
      case rest of
        [] \<Rightarrow> if digitpart ip then Some (filter is_digit ip, 0) else None
      | p # fp \<Rightarrow>
          if (fp = [] \<and> digitpart ip) \<or> (digitpart fp \<and> (ip = [] \<or> digitpart ip))
          then Some (filter is_digit ip @ filter is_digit fp, length (filter is_digit fp))
          else None)"

text \<open>\<^verbatim>\<open>exponent ::= ("e" | "E") [sign] digitpart\<close>, after the letter.\<close>

definition parse_exponent :: "string \<Rightarrow> int option" where
  "parse_exponent e =
     (case take_sign e of
        (neg, ds) \<Rightarrow>
          if digitpart ds
          then Some (if neg then - int (nat_of_digits (filter is_digit ds))
                     else int (nat_of_digits (filter is_digit ds)))
          else None)"

definition scale10 :: "real \<Rightarrow> int \<Rightarrow> real" where
  "scale10 x k = (if 0 \<le> k then x * 10 ^ nat k else x / 10 ^ nat (- k))"

text \<open>\<^verbatim>\<open>float(s)\<close> for a string, after the grammar of the language reference. The value
  is the decimal number itself: neither its rounding to binary64 nor overflow is modelled.
  \<open>Infinity True\<close> is the positive infinity.\<close>

definition ref_float :: "string \<Rightarrow> error + pyfloat" where
  "ref_float s =
     (case take_sign (str_strip s) of
        (neg, u) \<Rightarrow>
          if map ascii_lower u \<in> {''inf'', ''infinity''} then Inr (Infinity (\<not> neg))
          else if map ascii_lower u = ''nan'' then Inr NaN
          else
            (let isE = (\<lambda>c. c = CHR ''e'' \<or> c = CHR ''E'');
                 m = takeWhile (\<lambda>c. \<not> isE c) u;
                 rest = dropWhile (\<lambda>c. \<not> isE c) u
             in case parse_number m of
                  None \<Rightarrow> Inl ValueError
                | Some (ds, k) \<Rightarrow>
                    (let x = real (nat_of_digits ds) * (if neg then - 1 else 1) in
                     case rest of
                       [] \<Rightarrow> Inr (Finite (scale10 x (- int k)))
                     | e # ex \<Rightarrow>
                         (case parse_exponent ex of
                            None \<Rightarrow> Inl ValueError
                          | Some n \<Rightarrow> Inr (Finite (scale10 x (n - int k)))))))"

text \<open>\<^verbatim>\<open>int(s)\<close> for a string, in base 10.\<close>

definition ref_int :: "string \<Rightarrow> error + int" where
  "ref_int s =
     (case take_sign (str_strip s) of
        (neg, ds) \<Rightarrow>
          if digitpart ds
          then Inr (if neg then - int (nat_of_digits (filter is_digit ds))
                    else int (nat_of_digits (filter is_digit ds)))
          else Inl ValueError)"


subsection \<open>Parsing and printing dates\<close>

text \<open>What a directive of \<^verbatim>\<open>strptime\<close> can match in front of a string, in the order its
  regular expression tries: two digits before one. The directives are those of the formats
  the module passes: \<^verbatim>\<open>%d\<close>, \<^verbatim>\<open>%m\<close>, \<^verbatim>\<open>%Y\<close>, \<^verbatim>\<open>%H\<close>, \<^verbatim>\<open>%M\<close>.\<close>

definition two_digits ::
  "nat \<Rightarrow> nat \<Rightarrow> string \<Rightarrow> (nat \<times> string) list" where
  "two_digits lo hi s =
     (case s of
        a # b # r \<Rightarrow>
          if is_digit a \<and> is_digit b \<and> lo \<le> nat_of_digits [a, b] \<and> nat_of_digits [a, b] \<le> hi
          then [(nat_of_digits [a, b], r)] else []
      | _ \<Rightarrow> [])"

definition one_digit :: "nat \<Rightarrow> string \<Rightarrow> (nat \<times> string) list" where
  "one_digit lo s =
     (case s of
        a # r \<Rightarrow> if is_digit a \<and> lo \<le> digit_val a then [(digit_val a, r)] else []
      | [] \<Rightarrow> [])"

definition directive ::
  "char \<Rightarrow> string \<Rightarrow> (nat \<times> string) list option" where
  "directive d s =
     (if d = CHR ''d'' then
        Some (two_digits 1 31 s @ one_digit 1 s @
              (case s of c # r \<Rightarrow> if c = CHR '' '' then one_digit 1 r else [] | [] \<Rightarrow> []))
      else if d = CHR ''m'' then Some (two_digits 1 12 s @ one_digit 1 s)
      else if d = CHR ''H'' then Some (two_digits 0 23 s @ one_digit 0 s)
      else if d = CHR ''M'' then Some (two_digits 0 59 s @ one_digit 0 s)
      else if d = CHR ''Y'' then
        Some (case s of
                a # b # c # e # r \<Rightarrow>
                  if list_all is_digit [a, b, c, e] then [(nat_of_digits [a, b, c, e], r)] else []
              | _ \<Rightarrow> [])
      else None)"

text \<open>All the ways a format matches in front of a string, the preferred one first: the
  fields read (the latest first) and what is left of the string. \<open>None\<close> for a format
  outside the model.\<close>

fun strp_match :: "string \<Rightarrow> string \<Rightarrow> (char \<times> nat) list \<Rightarrow> ((char \<times> nat) list \<times> string) list option" where
  "strp_match [] s acc = Some [(acc, s)]"
| "strp_match (f # fs) s acc =
     (if f = CHR ''%'' then
        (case fs of
           [] \<Rightarrow> None
         | d # fs' \<Rightarrow>
             (case directive d s of
                None \<Rightarrow> None
              | Some cands \<Rightarrow>
                  map_option concat
                    (those (map (\<lambda>(v, r). strp_match fs' r ((d, v) # acc)) cands))))
      else if isspace f then None
      else
        (case s of
           [] \<Rightarrow> Some []
         | c # r \<Rightarrow> if c = f then strp_match fs r acc else Some []))"

definition is_leap :: "nat \<Rightarrow> bool" where
  "is_leap y = (y mod 4 = 0 \<and> (y mod 100 \<noteq> 0 \<or> y mod 400 = 0))"

definition days_in_month :: "nat \<Rightarrow> nat \<Rightarrow> nat" where
  "days_in_month y m =
     (if m = 2 then (if is_leap y then 29 else 28)
      else if m \<in> {4, 6, 9, 11} then 30 else 31)"

definition field_or ::
  "(char \<times> nat) list \<Rightarrow> char \<Rightarrow> nat \<Rightarrow> nat" where
  "field_or got d dflt = (case map_of got d of Some v \<Rightarrow> v | None \<Rightarrow> dflt)"

text \<open>\<^verbatim>\<open>datetime.strptime(s, fmt)\<close>: the first match of the format must use up the string,
  and the fields must make a date (a field the format lacks is 1900, January, the first,
  midnight).\<close>

definition ref_strptime :: "string \<Rightarrow> string \<Rightarrow> error + pydatetime" where
  "ref_strptime s fmt =
     (case strp_match fmt s [] of
        None \<Rightarrow> Inl (OtherException ''not modelled'')
      | Some [] \<Rightarrow> Inl ValueError
      | Some ((got, rest) # others) \<Rightarrow>
          if rest \<noteq> [] then Inl ValueError
          else
            (let y = field_or got (CHR ''Y'') 1900;
                 m = field_or got (CHR ''m'') 1;
                 d = field_or got (CHR ''d'') 1
             in if y < 1 \<or> days_in_month y m < d then Inl ValueError
                else Inr \<lparr>dt_year = y, dt_month = m, dt_day = d,
                          dt_hour = field_or got (CHR ''H'') 0,
                          dt_minute = field_or got (CHR ''M'') 0,
                          dt_second = 0\<rparr>))"

text \<open>A number in decimal, and in two digits.\<close>

definition digit_char :: "nat \<Rightarrow> char" where
  "digit_char n = ''0123456789'' ! (n mod 10)"

fun digits_of_nat :: "nat \<Rightarrow> string" where
  "digits_of_nat n =
     (if n < 10 then [digit_char n] else digits_of_nat (n div 10) @ [digit_char n])"

definition two_of_nat :: "nat \<Rightarrow> string" where
  "two_of_nat n = (if n < 10 then CHR ''0'' # digits_of_nat n else digits_of_nat n)"

text \<open>\<^verbatim>\<open>strftime\<close> with the directives \<^verbatim>\<open>%Y %m %d %H %M %S %%\<close>, given what each of
  them prints. \<open>None\<close> for a format outside the model.\<close>

fun strf :: "(char \<rightharpoonup> string) \<Rightarrow> string \<Rightarrow> string option" where
  "strf tbl [] = Some []"
| "strf tbl [c] = (if c = CHR ''%'' then None else Some [c])"
| "strf tbl (c # d # cs) =
     (if c = CHR ''%'' then
        (if d = CHR ''%'' then map_option (\<lambda>r. CHR ''%'' # r) (strf tbl cs)
         else (case tbl d of
                 None \<Rightarrow> None
               | Some x \<Rightarrow> map_option (\<lambda>r. x @ r) (strf tbl cs)))
      else map_option (\<lambda>r. c # r) (strf tbl (d # cs)))"

text \<open>\<^verbatim>\<open>Period.strftime(fmt)\<close>, for a year of four digits.\<close>

definition ref_period_strftime :: "period \<Rightarrow> string \<Rightarrow> error + string" where
  "ref_period_strftime p fmt =
     (if p_year p < 1000 \<or> 9999 < p_year p then Inl (OtherException ''not modelled'')
      else
        (case strf [CHR ''Y'' \<mapsto> digits_of_nat (p_year p), CHR ''m'' \<mapsto> two_of_nat (p_month p),
                    CHR ''d'' \<mapsto> two_of_nat (p_day p), CHR ''H'' \<mapsto> two_of_nat (p_hour p),
                    CHR ''M'' \<mapsto> two_of_nat (p_minute p), CHR ''S'' \<mapsto> two_of_nat (p_second p)]
                fmt of
           None \<Rightarrow> Inl (OtherException ''not modelled'')
         | Some r \<Rightarrow> Inr r))"

text \<open>\<^verbatim>\<open>time.strftime(fmt)\<close>\<close>

definition ref_time_strftime :: "pytime \<Rightarrow> string \<Rightarrow> error + string" where
  "ref_time_strftime t fmt =
     (case strf [CHR ''H'' \<mapsto> two_of_nat (t_hour t), CHR ''M'' \<mapsto> two_of_nat (t_minute t),
                 CHR ''S'' \<mapsto> two_of_nat (t_second t)]
             fmt of
        None \<Rightarrow> Inl (OtherException ''not modelled'')
      | Some r \<Rightarrow> Inr r)"


subsection \<open>Parsing JSON\<close>

text \<open>\<^verbatim>\<open>json.loads\<close> for documents whose strings have no escape sequence. The recursion is
  bounded by the length of the document, one more than it can use.\<close>

definition json_ws :: "char \<Rightarrow> bool" where
  "json_ws c = (of_char c \<in> {32, 9, 10, 13 :: nat})"

definition skip_ws :: "string \<Rightarrow> string" where
  "skip_ws s = dropWhile json_ws s"

text \<open>A string after its opening quote: its characters and what follows the closing
  quote. A control character is refused (the decoder is strict).\<close>

fun scan_string :: "string \<Rightarrow> error + (string \<times> string)" where
  "scan_string [] = Inl JSONDecodeError"
| "scan_string (c # cs) =
     (if c = CHR 0x22 then Inr ([], cs)
      else if c = CHR 0x5C then Inl (OtherException ''not modelled'')
      else if (of_char c :: nat) < 32 then Inl JSONDecodeError
      else (case scan_string cs of Inl e \<Rightarrow> Inl e | Inr (t, r) \<Rightarrow> Inr (c # t, r)))"

text \<open>A number in front of a string, as the decoder's regular expression
  \<^verbatim>\<open>(-?(?:0|[1-9][0-9]*))(\.[0-9]+)?([eE][-+]?[0-9]+)?\<close> reads it: an \<^verbatim>\<open>int\<close> when it has
  neither fraction nor exponent, a \<^verbatim>\<open>float\<close> otherwise.\<close>

definition scan_number :: "string \<Rightarrow> (pyval \<times> string) option" where
  "scan_number s =
     (let neg = (s \<noteq> [] \<and> hd s = CHR ''-'');
          u = (if neg then tl s else s);
          ip = (case u of
                  [] \<Rightarrow> []
                | c # cs \<Rightarrow> if c = CHR ''0'' then [c]
                            else if is_digit c then c # takeWhile is_digit cs else []);
          r1 = drop (length ip) u;
          fp = (case r1 of [] \<Rightarrow> [] | c # cs \<Rightarrow> if c = CHR ''.'' then takeWhile is_digit cs else []);
          r2 = (if fp = [] then r1 else drop (Suc (length fp)) r1);
          er = (case r2 of
                  [] \<Rightarrow> []
                | c # cs \<Rightarrow> if c = CHR ''e'' \<or> c = CHR ''E'' then cs else []);
          eneg = (er \<noteq> [] \<and> hd er = CHR ''-'');
          es = (if er \<noteq> [] \<and> (hd er = CHR ''-'' \<or> hd er = CHR ''+'') then tl er else er);
          ed = takeWhile is_digit es;
          r3 = (if ed = [] then r2 else dropWhile is_digit es);
          sgn = (if neg then - 1 else 1 :: int)
      in if ip = [] then None
         else if fp = [] \<and> ed = [] then Some (PInt (sgn * int (nat_of_digits ip)), r1)
         else Some (PFloat (Finite (scale10 (of_int (sgn * int (nat_of_digits (ip @ fp))))
                      ((if eneg then - int (nat_of_digits ed) else int (nat_of_digits ed))
                        - int (length fp)))), r3))"

text \<open>\<^verbatim>\<open>dict(pairs)\<close>: a key that comes again keeps its place and takes the later value.\<close>

definition dict_insert ::
  "(string \<times> pyval) list \<Rightarrow> string \<times> pyval \<Rightarrow> (string \<times> pyval) list" where
  "dict_insert d kv =
     (if fst kv \<in> set (map fst d) then map (\<lambda>x. if fst x = fst kv then kv else x) d
      else d @ [kv])"

fun parse_value :: "nat \<Rightarrow> string \<Rightarrow> error + (pyval \<times> string)"
  and parse_members :: "nat \<Rightarrow> string \<Rightarrow> (string \<times> pyval) list \<Rightarrow> error + (pyval \<times> string)"
  and parse_elements :: "nat \<Rightarrow> string \<Rightarrow> pyval list \<Rightarrow> error + (pyval \<times> string)" where
  "parse_value 0 s = Inl (OtherException ''not modelled'')"
| "parse_value (Suc n) s =
     (case s of
        [] \<Rightarrow> Inl JSONDecodeError
      | c # cs \<Rightarrow>
          if c = CHR 0x22 then
            (case scan_string cs of Inl e \<Rightarrow> Inl e | Inr (t, r) \<Rightarrow> Inr (PStr t, r))
          else if c = CHR ''{'' then
            (if startswith (skip_ws cs) ''}'' then Inr (PDict [], tl (skip_ws cs))
             else parse_members n (skip_ws cs) [])
          else if c = CHR ''['' then
            (if startswith (skip_ws cs) '']'' then Inr (PList [], tl (skip_ws cs))
             else parse_elements n (skip_ws cs) [])
          else if startswith s ''null'' then Inr (PNone, drop 4 s)
          else if startswith s ''true'' then Inr (PBool True, drop 4 s)
          else if startswith s ''false'' then Inr (PBool False, drop 5 s)
          else
            (case scan_number s of
               Some vr \<Rightarrow> Inr vr
             | None \<Rightarrow>
                 if startswith s ''NaN'' then Inr (PFloat NaN, drop 3 s)
                 else if startswith s ''Infinity'' then Inr (PFloat (Infinity True), drop 8 s)
                 else if startswith s ''-Infinity'' then Inr (PFloat (Infinity False), drop 9 s)
                 else Inl JSONDecodeError))"
| "parse_members 0 s acc = Inl (OtherException ''not modelled'')"
| "parse_members (Suc n) s acc =
     (if \<not> startswith s [CHR 0x22] then Inl JSONDecodeError
      else
        (case scan_string (tl s) of
           Inl e \<Rightarrow> Inl e
         | Inr (key, r) \<Rightarrow>
             if \<not> startswith (skip_ws r) '':'' then Inl JSONDecodeError
             else
               (case parse_value n (skip_ws (tl (skip_ws r))) of
                  Inl e \<Rightarrow> Inl e
                | Inr (v, r') \<Rightarrow>
                    if startswith (skip_ws r') ''}'' then
                      Inr (PDict (dict_insert acc (key, v)), tl (skip_ws r'))
                    else if startswith (skip_ws r') '','' then
                      parse_members n (skip_ws (tl (skip_ws r'))) (dict_insert acc (key, v))
                    else Inl JSONDecodeError)))"
| "parse_elements 0 s acc = Inl (OtherException ''not modelled'')"
| "parse_elements (Suc n) s acc =
     (case parse_value n s of
        Inl e \<Rightarrow> Inl e
      | Inr (v, r) \<Rightarrow>
          if startswith (skip_ws r) '']'' then Inr (PList (acc @ [v]), tl (skip_ws r))
          else if startswith (skip_ws r) '','' then
            parse_elements n (skip_ws (tl (skip_ws r))) (acc @ [v])
          else Inl JSONDecodeError)"

definition ref_json_loads :: "string \<Rightarrow> error + pyval" where
  "ref_json_loads s =
     (case parse_value (Suc (length s)) (skip_ws s) of
        Inl e \<Rightarrow> Inl e
      | Inr (v, r) \<Rightarrow> if skip_ws r = [] then Inr v else Inl JSONDecodeError)"

subsection \<open>Building a table\<close>

text \<open>\<^verbatim>\<open>pd.DataFrame(data)\<close> for a list of dicts (a column for every key, in the order the
  keys first come; \<^verbatim>\<open>nan\<close> where a row lacks the key) and for a list of lists of one
  length, when every cell is a string, so that no column is converted to a numeric type.\<close>

fun is_str :: "pyval \<Rightarrow> bool" where
  "is_str (PStr s) = True"
| "is_str _ = False"

fun dict_items :: "pyval \<Rightarrow> (string \<times> pyval) list option" where
  "dict_items (PDict kvs) = Some kvs"
| "dict_items _ = None"

fun list_items :: "pyval \<Rightarrow> pyval list option" where
  "list_items (PList xs) = Some xs"
| "list_items _ = None"

definition first_seen :: "'a list \<Rightarrow> 'a list" where
  "first_seen xs = rev (remdups (rev xs))"

definition ref_DataFrame :: "pyval list \<Rightarrow> error + dataframe" where
  "ref_DataFrame data =
     (if data = [] then Inr \<lparr>shape0 = 0, shape1 = 0, iat = (\<lambda>i j. PNone)\<rparr>
      else
        (case those (map dict_items data) of
           Some rows \<Rightarrow>
             if list_all (\<lambda>row. list_all (\<lambda>kv. is_str (snd kv)) row) rows then
               (let cols = first_seen (concat (map (map fst) rows)) in
                Inr \<lparr>shape0 = length rows, shape1 = length cols,
                     iat = (\<lambda>i j. if i < length rows \<and> j < length cols
                                   then (case map_of (rows ! i) (cols ! j) of
                                           Some v \<Rightarrow> v
                                         | None \<Rightarrow> PFloat NaN)
                                   else PNone)\<rparr>)
             else Inl (OtherException ''not modelled'')
         | None \<Rightarrow>
             (case those (map list_items data) of
                Some rows \<Rightarrow>
                  if list_all (\<lambda>row. length row = length (hd rows) \<and> list_all is_str row) rows then
                    Inr \<lparr>shape0 = length rows, shape1 = length (hd rows),
                         iat = (\<lambda>i j. if i < length rows \<and> j < length (hd rows)
                                       then rows ! i ! j else PNone)\<rparr>
                  else Inl (OtherException ''not modelled'')
              | None \<Rightarrow> Inl (OtherException ''not modelled''))))"

text \<open>The reference instance.\<close>

definition reflib :: pylib where
  "reflib = \<lparr>float_of_str = ref_float, int_of_str = ref_int, strptime = ref_strptime,
             period_strftime = ref_period_strftime, time_strftime = ref_time_strftime,
             json_loads = ref_json_loads, DataFrame = ref_DataFrame\<rparr>"

section \<open>The rules as the specification words them\<close>

datatype missing_reason = MeasurementFailed | NotApplicable | NotAsked | AskedButUnknown | NotDone

fun reason_text :: "missing_reason \<Rightarrow> string" where
  "reason_text MeasurementFailed = ''measurement failed''"
| "reason_text NotApplicable = ''not applicable''"
| "reason_text NotAsked = ''not asked''"
| "reason_text AskedButUnknown = ''asked but unknown''"
| "reason_text NotDone = ''not done''"

fun reason_code :: "missing_reason \<Rightarrow> int" where
  "reason_code MeasurementFailed = - 95"
| "reason_code NotApplicable = - 96"
| "reason_code NotAsked = - 97"
| "reason_code AskedButUnknown = - 98"
| "reason_code NotDone = - 99"

fun reason_code_text :: "missing_reason \<Rightarrow> string" where
  "reason_code_text MeasurementFailed = ''-95''"
| "reason_code_text NotApplicable = ''-96''"
| "reason_code_text NotAsked = ''-97''"
| "reason_code_text AskedButUnknown = ''-98''"
| "reason_code_text NotDone = ''-99''"

fun reason_year :: "missing_reason \<Rightarrow> nat" where
  "reason_year MeasurementFailed = 2995"
| "reason_year NotApplicable = 2996"
| "reason_year NotAsked = 2997"
| "reason_year AskedButUnknown = 2998"
| "reason_year NotDone = 2999"

definition priority_order :: "missing_reason list" where
  "priority_order = [MeasurementFailed, NotApplicable, NotAsked, AskedButUnknown, NotDone]"

text \<open>The first reason, in the order of priority, whose text occurs in the raw value.\<close>

definition first_reason :: "string \<Rightarrow> missing_reason option" where
  "first_reason raw = find (\<lambda>r. str_contains (reason_text r) raw) priority_order"

definition numeric_types :: "pyval set" where
  "numeric_types = {PStr ''numeric'', PStr ''slider'', PStr ''randomization''}"

definition optiongroup_types :: "pyval set" where
  "optiongroup_types = {PStr ''checkbox'', PStr ''dropdown'', PStr ''radio''}"

definition string_types :: "pyval set" where
  "string_types = {PStr ''string'', PStr ''textarea'', PStr ''upload'', PStr ''calculation''}"

text \<open>The field types that handle a missing value.\<close>

definition missing_types :: "pyval set" where
  "missing_types = numeric_types \<union> optiongroup_types \<union>
     {PStr ''year'', PStr ''time'', PStr ''date'', PStr ''datetime'', PStr ''numberdate''}"

text \<open>The column "Missing sentinel" of the table of the specification, and the string for a
  reason that is not recognized.\<close>

definition missing_representation ::
  "pylib \<Rightarrow> castor_study \<Rightarrow> pyval \<Rightarrow> missing_reason option \<Rightarrow> error + interpreted" where
  "missing_representation L study ftype reason =
     (case reason of
        None \<Rightarrow>
          if ftype = PStr ''numberdate''
          then Inr (Value (PList [PStr ''Missing value not recognized'',
                                  PStr ''Missing value not recognized'']))
          else Inr (Value (PStr ''Missing value not recognized''))
      | Some r \<Rightarrow>
          if ftype \<in> numeric_types \<or> ftype = PStr ''year'' then Inr (Value (PInt (reason_code r)))
          else if ftype \<in> optiongroup_types then Inr (Value (PStr (reason_text r)))
          else if ftype = PStr ''time'' then Inr (Value (PStr (reason_code_text r)))
          else if ftype = PStr ''date'' then
            err_bind (period_strftime L (Period_ymd (reason_year r) 1 1 FreqD)
                        (configuration study ''date''))
              (\<lambda>s. Inr (Value (PStr s)))
          else if ftype = PStr ''datetime'' then
            err_bind (period_strftime L (Period_ymd (reason_year r) 1 1 FreqS)
                        (configuration study ''datetime''))
              (\<lambda>s. Inr (Value (PStr s)))
          else
            err_bind (period_strftime L (Period_ymd (reason_year r) 1 1 FreqD)
                        (configuration study ''date''))
              (\<lambda>s. Inr (Value (PList [PInt (reason_code r), PStr s]))))"

text \<open>The column "Empty value" of the table of the specification, for a raw value \<open>raw\<close>
  that is empty.\<close>

definition empty_representation :: "pyval \<Rightarrow> pyval \<Rightarrow> interpreted" where
  "empty_representation ftype raw =
     (if ftype \<in> numeric_types \<union> {PStr ''year'', PStr ''date'', PStr ''datetime'', PStr ''grid''}
      then Value (PFloat NaN)
      else if ftype \<in> optiongroup_types \<union> {PStr ''time''} then Value (PStr [])
      else if ftype \<in> string_types then Value raw
      else if ftype = PStr ''numberdate'' then Value (PList [PFloat NaN, PFloat NaN])
      else Value (PStr ''Error''))"

section \<open>Examples\<close>

definition example_study :: castor_study where
  "example_study =
     \<lparr>configuration = (\<lambda>k. if k = ''date'' then ''%Y-%m-%d''
                             else if k = ''time'' then ''%H.%M''
                             else ''%d/%m/%Y %H:%M:%S''),
      pass_keyerrors = False,
      get_single_optiongroup =
        (\<lambda>i. if i = PStr ''og1'' then Some [(''1'', ''Yes''), (''2'', ''No'')] else None)\<rparr>"

definition example_field :: "string \<Rightarrow> castor_field" where
  "example_field ftype =
     \<lparr>field_name = ''weight'', field_type = PStr ftype, field_option_group = PStr ''og1'',
      field_summary_template = []\<rparr>"

definition example_point :: "string \<Rightarrow> string \<Rightarrow> castor_data_point" where
  "example_point ftype raw =
     \<lparr>self_field_id = ''F-1'', self_raw_value = PStr raw, self_instance_of = example_field ftype\<rparr>"

definition example_unknown_groups :: castor_study where
  "example_unknown_groups = example_study\<lparr>get_single_optiongroup := (\<lambda>i. None)\<rparr>"

definition example_passing :: castor_study where
  "example_passing = example_study\<lparr>pass_keyerrors := True\<rparr>"

text \<open>An exception without the part of its message that names the field: the standalone
  helper leaves that part out.\<close>

fun without_field :: "error \<Rightarrow> error" where
  "without_field (CastorException (OptionalValueMappingFailed og raw fld)) =
     CastorException (OptionalValueMappingFailed og raw None)"
| "without_field e = e"

definition without_field_result :: "error + 'a \<Rightarrow> error + 'a" where
  "without_field_result m = (case m of Inl e \<Rightarrow> Inl (without_field e) | Inr v \<Rightarrow> Inr v)"

text \<open>A grid field with its summary template and its raw value.\<close>

definition example_grid :: "string \<Rightarrow> string \<Rightarrow> castor_data_point" where
  "example_grid template raw =
     \<lparr>self_field_id = ''G-1'', self_raw_value = PStr raw,
      self_instance_of =
        \<lparr>field_name = ''visits'', field_type = PStr ''grid'', field_option_group = PNone,
         field_summary_template = template\<rparr>\<rparr>"

text \<open>A template with three field types, and a raw value of three rows of two cells.\<close>

definition template3 :: string where
  "template3 = ''{\"fieldTypes\": [\"string\", \"dropdown\", \"date\"], \"optionLists\": [null, \"og1\", null], \"rowNames\": [\"r 1\", \"r 2\", \"r 3\"], \"columnNames\": [\"c 1\", \"c 2 \"]}''"

definition raw32 :: string where
  "raw32 = ''{\"0\": {\"0\": \"a\", \"1\": \"b\"}, \"1\": {\"0\": \"1\", \"1\": \"2\"}, \"2\": {\"0\": \"01-02-2020\", \"1\": \"Missing (not asked)\"}}''"

text \<open>The same raw value with a cell that is no value of the option group.\<close>

definition raw32_bad_cell :: string where
  "raw32_bad_cell = ''{\"0\": {\"0\": \"a\", \"1\": \"b\"}, \"1\": {\"0\": \"1\", \"1\": \"9\"}, \"2\": {\"0\": \"01-02-2020\", \"1\": \"Missing (not asked)\"}}''"

text \<open>A template with four field types, and a raw value of two rows of three cells.\<close>

definition template4 :: string where
  "template4 = ''{\"fieldTypes\": [\"string\", \"string\", \"string\", \"string\"], \"optionLists\": [null, null, null, null], \"rowNames\": [\"r 1\", \"r 2\"], \"columnNames\": [\"c 1\", \"c 2\", \"c 3\"]}''"

definition raw23 :: string where
  "raw23 = ''{\"0\": {\"0\": \"a\", \"1\": \"b\", \"2\": \"c\"}, \"1\": {\"0\": \"d\", \"1\": \"e\", \"2\": \"f\"}}''"




text \<open>The template \<open>template3\<close>, parsed.\<close>

definition parsed_template3 :: pyval where
  "parsed_template3 =
     PDict [(''fieldTypes'', PList [PStr ''string'', PStr ''dropdown'', PStr ''date'']),
            (''optionLists'', PList [PNone, PStr ''og1'', PNone]),
            (''rowNames'', PList [PStr ''r 1'', PStr ''r 2'', PStr ''r 3'']),
            (''columnNames'', PList [PStr ''c 1'', PStr ''c 2 ''])]"

section \<open>The reconstruction of a grid as the specification words it\<close>

text \<open>The steps of the reconstruction: parsing the template, parsing the raw value into
  rows, building the table, orienting it, interpreting the cells, assembling the result.\<close>

datatype grid_step = ParseTemplate | ParseRaw | BuildTable | Orient | InterpretCells | Assemble

text \<open>The first step that fails, if one does.\<close>

definition grid_failure ::
  "pylib \<Rightarrow> castor_study \<Rightarrow> castor_data_point \<Rightarrow> grid_step option" where
  "grid_failure L study self =
     (case json_loads L (field_summary_template (self_instance_of self)) of
        Inl e \<Rightarrow> Some ParseTemplate
      | Inr grid_template \<Rightarrow>
     (case err_bind (py_json_loads L (self_raw_value self)) py_values of
        Inl e \<Rightarrow> Some ParseRaw
      | Inr grid_rows \<Rightarrow>
     (case DataFrame L grid_rows of
        Inl e \<Rightarrow> Some BuildTable
      | Inr raw_grid_df \<Rightarrow>
     (case grid_orient grid_template raw_grid_df of
        Inl e \<Rightarrow> Some Orient
      | Inr (oriented, row_names, col_names) \<Rightarrow>
     (case grid_columns L study self grid_template oriented of
        Inl e \<Rightarrow> Some InterpretCells
      | Inr cols_interpreted \<Rightarrow>
     (case grid_assemble L cols_interpreted row_names col_names of
        Inl e \<Rightarrow> Some Assemble
      | Inr new_value \<Rightarrow> None))))))"



section \<open>Properties\<close>

lemma startswith_iff: "startswith s p \<longleftrightarrow> (\<exists>q. s = p @ q)"
  by (induction s p rule: startswith.induct) auto

lemma str_contains_iff: "str_contains sub s \<longleftrightarrow> (\<exists>p q. s = p @ sub @ q)"
proof (induction s)
  case Nil
  then show ?case by auto
next
  case (Cons c cs)
  show ?case
  proof
    assume "str_contains sub (c # cs)"
    then consider "startswith (c # cs) sub" | "str_contains sub cs" by auto
    then show "\<exists>p q. c # cs = p @ sub @ q"
    proof cases
      case 1
      then obtain q where "c # cs = sub @ q" by (auto simp: startswith_iff)
      then have "c # cs = [] @ sub @ q" by simp
      then show ?thesis by blast
    next
      case 2
      then obtain p q where "cs = p @ sub @ q" using Cons.IH by auto
      then have "c # cs = (c # p) @ sub @ q" by simp
      then show ?thesis by blast
    qed
  next
    assume "\<exists>p q. c # cs = p @ sub @ q"
    then obtain p q where pq: "c # cs = p @ sub @ q" by auto
    show "str_contains sub (c # cs)"
    proof (cases p)
      case Nil
      with pq have "startswith (c # cs) sub" by (auto simp: startswith_iff)
      then show ?thesis by simp
    next
      case (Cons a p')
      with pq have "cs = p' @ sub @ q" by simp
      then have "str_contains sub cs" using Cons.IH by auto
      then show ?thesis by simp
    qed
  qed
qed

lemma str_contains_nonempty: "str_contains sub s \<Longrightarrow> sub \<noteq> [] \<Longrightarrow> s \<noteq> []"
  by (cases s) auto

lemma str_split_nonempty: "str_split sep s \<noteq> []"
  by (induction s) (auto split: list.splits)

lemma str_split_single_empty: "str_split sep s = [[]] \<longleftrightarrow> s = []"
  by (cases s) (auto split: list.splits simp: str_split_nonempty)

lemma str_join_split: "str_join [sep] (str_split sep s) = s"
proof (induction s)
  case Nil
  then show ?case by simp
next
  case (Cons c cs)
  obtain w ws where w: "str_split sep cs = w # ws"
    using str_split_nonempty[of sep cs] by (cases "str_split sep cs") auto
  with Cons show ?case
    by (cases ws) auto
qed

lemma str_split_no_sep: "t \<in> set (str_split sep s) \<Longrightarrow> sep \<notin> set t"
  by (induction s arbitrary: t) (auto split: if_splits list.splits)

text \<open>With distinct values, the dict of an option group gives every value its name.\<close>

lemma dict_of_distinct:
  "distinct (map fst og) \<Longrightarrow> (v, n) \<in> set og \<Longrightarrow> dict_of og v = Some n"
  by (simp add: dict_of_def map_of_is_SomeI distinct_rev rev_map[symmetric])

lemma err_bind_simps [simp]:
  "err_bind (Inl e) f = Inl e"
  "err_bind (Inr x) f = f x"
  by (simp_all add: err_bind_def)


lemmas chain_defs = as_value_def str_result_def first_reason_def
  priority_order_def

lemma missing_numeric:
  assumes "self_raw_value self = PStr raw" and "str_contains ''Missing'' raw"
  shows "CastorDataPoint_interpret_numeric L self =
    (case first_reason raw of None \<Rightarrow> Inr (PStr ''Missing value not recognized'')
     | Some r \<Rightarrow> Inr (PInt (reason_code r)))"
  using assms str_contains_nonempty[of "''Missing''" raw]
  by (simp add: CastorDataPoint_interpret_numeric_def chain_defs)

lemma missing_year:
  assumes "self_raw_value self = PStr raw" and "str_contains ''Missing'' raw"
  shows "CastorDataPoint_interpret_year L self =
    (case first_reason raw of None \<Rightarrow> Inr (PStr ''Missing value not recognized'')
     | Some r \<Rightarrow> Inr (PInt (reason_code r)))"
  using assms str_contains_nonempty[of "''Missing''" raw]
  by (simp add: CastorDataPoint_interpret_year_def chain_defs)

lemma missing_optiongroup:
  assumes "self_raw_value self = PStr raw" and "str_contains ''Missing'' raw"
  shows "CastorDataPoint_interpret_optiongroup study self =
    (case first_reason raw of None \<Rightarrow> Inr (PStr ''Missing value not recognized'')
     | Some r \<Rightarrow> Inr (PStr (reason_text r)))"
  using assms str_contains_nonempty[of "''Missing''" raw]
  by (simp add: CastorDataPoint_interpret_optiongroup_def chain_defs)

lemma missing_time:
  assumes "self_raw_value self = PStr raw" and "str_contains ''Missing'' raw"
  shows "CastorDataPoint_interpret_time L fmt self =
    (case first_reason raw of None \<Rightarrow> Inr (PStr ''Missing value not recognized'')
     | Some r \<Rightarrow> Inr (PStr (reason_code_text r)))"
  using assms str_contains_nonempty[of "''Missing''" raw]
  by (simp add: CastorDataPoint_interpret_time_def chain_defs)

lemma missing_date:
  assumes "self_raw_value self = PStr raw" and "str_contains ''Missing'' raw"
  shows "CastorDataPoint_interpret_date L fmt self =
    (case first_reason raw of None \<Rightarrow> Inr (PStr ''Missing value not recognized'')
     | Some r \<Rightarrow> str_result (period_strftime L (Period_ymd (reason_year r) 1 1 FreqD) fmt))"
  using assms str_contains_nonempty[of "''Missing''" raw]
  by (simp add: CastorDataPoint_interpret_date_def chain_defs)

lemma missing_datetime:
  assumes "self_raw_value self = PStr raw" and "str_contains ''Missing'' raw"
  shows "CastorDataPoint_interpret_datetime L fmt self =
    (case first_reason raw of None \<Rightarrow> Inr (PStr ''Missing value not recognized'')
     | Some r \<Rightarrow> str_result (period_strftime L (Period_ymd (reason_year r) 1 1 FreqS) fmt))"
  using assms str_contains_nonempty[of "''Missing''" raw]
  by (simp add: CastorDataPoint_interpret_datetime_def chain_defs)

lemma missing_numberdate:
  assumes "self_raw_value self = PStr raw" and "str_contains ''Missing'' raw"
  shows "CastorDataPoint_interpret_numberdate L fmt self =
    (case first_reason raw of
       None \<Rightarrow> Inr (PList [PStr ''Missing value not recognized'', PStr ''Missing value not recognized''])
     | Some r \<Rightarrow> err_bind (period_strftime L (Period_ymd (reason_year r) 1 1 FreqD) fmt)
                   (\<lambda>s. Inr (PList [PInt (reason_code r), PStr s])))"
  using assms str_contains_nonempty[of "''Missing''" raw]
  by (simp add: CastorDataPoint_interpret_numberdate_def chain_defs)


lemmas type_defs = missing_types_def numeric_types_def optiongroup_types_def string_types_def

lemmas example_defs = example_point_def example_field_def example_study_def

lemma dispatch_optiongroup:
  "field_type (self_instance_of self) \<in> optiongroup_types \<Longrightarrow>
   CastorDataPoint_interpret L study self
     = as_value (CastorDataPoint_interpret_optiongroup study self)"
  by (simp add: CastorDataPoint_interpret_def optiongroup_types_def)

lemma dispatch_numeric:
  "field_type (self_instance_of self) \<in> numeric_types \<Longrightarrow>
   CastorDataPoint_interpret L study self = as_value (CastorDataPoint_interpret_numeric L self)"
  by (auto simp: CastorDataPoint_interpret_def numeric_types_def)

lemma dispatch_year:
  "field_type (self_instance_of self) = PStr ''year'' \<Longrightarrow>
   CastorDataPoint_interpret L study self = as_value (CastorDataPoint_interpret_year L self)"
  by (simp add: CastorDataPoint_interpret_def)

lemma dispatch_string:
  "field_type (self_instance_of self) \<in> string_types \<Longrightarrow>
   CastorDataPoint_interpret L study self = Inr (Value (self_raw_value self))"
  by (auto simp: CastorDataPoint_interpret_def string_types_def)

lemma dispatch_datetime:
  "field_type (self_instance_of self) = PStr ''datetime'' \<Longrightarrow>
   CastorDataPoint_interpret L study self
     = as_value (CastorDataPoint_interpret_datetime L (configuration study ''datetime'') self)"
  by (simp add: CastorDataPoint_interpret_def)

lemma dispatch_date:
  "field_type (self_instance_of self) = PStr ''date'' \<Longrightarrow>
   CastorDataPoint_interpret L study self
     = as_value (CastorDataPoint_interpret_date L (configuration study ''date'') self)"
  by (simp add: CastorDataPoint_interpret_def)

lemma dispatch_time:
  "field_type (self_instance_of self) = PStr ''time'' \<Longrightarrow>
   CastorDataPoint_interpret L study self
     = as_value (CastorDataPoint_interpret_time L (configuration study ''time'') self)"
  by (simp add: CastorDataPoint_interpret_def)

lemma dispatch_numberdate:
  "field_type (self_instance_of self) = PStr ''numberdate'' \<Longrightarrow>
   CastorDataPoint_interpret L study self
     = as_value (CastorDataPoint_interpret_numberdate L (configuration study ''date'') self)"
  by (simp add: CastorDataPoint_interpret_def)

lemma dispatch_grid:
  "field_type (self_instance_of self) = PStr ''grid'' \<Longrightarrow>
   CastorDataPoint_interpret L study self = CastorDataPoint_interpret_grid L study self"
  by (simp add: CastorDataPoint_interpret_def)

lemma dispatch_other:
  "field_type (self_instance_of self) \<notin> optiongroup_types \<union> numeric_types \<union> string_types \<union>
     {PStr ''year'', PStr ''datetime'', PStr ''date'', PStr ''time'', PStr ''numberdate'',
      PStr ''grid''} \<Longrightarrow>
   CastorDataPoint_interpret L study self = Inr (Value (PStr ''Error''))"
  by (simp add: CastorDataPoint_interpret_def type_defs)

lemma repr_numeric:
  "ftype \<in> numeric_types \<or> ftype = PStr ''year'' \<Longrightarrow>
   missing_representation L study ftype reason =
     (case reason of None \<Rightarrow> Inr (Value (PStr ''Missing value not recognized''))
      | Some r \<Rightarrow> Inr (Value (PInt (reason_code r))))"
  by (auto simp: missing_representation_def numeric_types_def split: option.splits)

lemma repr_optiongroup:
  "ftype \<in> optiongroup_types \<Longrightarrow>
   missing_representation L study ftype reason =
     (case reason of None \<Rightarrow> Inr (Value (PStr ''Missing value not recognized''))
      | Some r \<Rightarrow> Inr (Value (PStr (reason_text r))))"
  by (auto simp: missing_representation_def type_defs split: option.splits)

lemma repr_time:
  "missing_representation L study (PStr ''time'') reason =
     (case reason of None \<Rightarrow> Inr (Value (PStr ''Missing value not recognized''))
      | Some r \<Rightarrow> Inr (Value (PStr (reason_code_text r))))"
  by (simp add: missing_representation_def type_defs split: option.splits)

lemma repr_date:
  "missing_representation L study (PStr ''date'') reason =
     (case reason of None \<Rightarrow> Inr (Value (PStr ''Missing value not recognized''))
      | Some r \<Rightarrow> err_bind (period_strftime L (Period_ymd (reason_year r) 1 1 FreqD)
                    (configuration study ''date'')) (\<lambda>s. Inr (Value (PStr s))))"
  by (simp add: missing_representation_def type_defs split: option.splits)

lemma repr_datetime:
  "missing_representation L study (PStr ''datetime'') reason =
     (case reason of None \<Rightarrow> Inr (Value (PStr ''Missing value not recognized''))
      | Some r \<Rightarrow> err_bind (period_strftime L (Period_ymd (reason_year r) 1 1 FreqS)
                    (configuration study ''datetime'')) (\<lambda>s. Inr (Value (PStr s))))"
  by (simp add: missing_representation_def type_defs split: option.splits)

lemma repr_numberdate:
  "missing_representation L study (PStr ''numberdate'') reason =
     (case reason of
        None \<Rightarrow> Inr (Value (PList [PStr ''Missing value not recognized'',
                                  PStr ''Missing value not recognized'']))
      | Some r \<Rightarrow> err_bind (period_strftime L (Period_ymd (reason_year r) 1 1 FreqD)
                    (configuration study ''date''))
                    (\<lambda>s. Inr (Value (PList [PInt (reason_code r), PStr s]))))"
  by (simp add: missing_representation_def type_defs split: option.splits)

lemma as_value_simps [simp]:
  "as_value (Inl e) = Inl e"
  "as_value (Inr v) = Inr (Value v)"
  by (simp_all add: as_value_def)

lemma as_value_bind: "as_value (err_bind m f) = err_bind m (\<lambda>x. as_value (f x))"
  by (cases m) simp_all

text \<open>
  Claim C1. For every field type that handles missing values (numeric, slider,
  randomization, year, checkbox, dropdown, radio, time, date, datetime, numberdate) and every
  raw value in which \<^verbatim>\<open>Missing\<close> occurs, the method \<^verbatim>\<open>__interpret\<close> returns what the
  table of the specification gives for the first reason, in the fixed order of priority,
  whose text occurs in the raw value; which other reasons occur as well plays no part. When
  none of the five occurs, the result is the string \<^verbatim>\<open>Missing value not recognized\<close> (a
  pair of it for numberdate).
\<close>

theorem missing_first_reason:
  assumes "field_type (self_instance_of self) \<in> missing_types"
    and "self_raw_value self = PStr raw"
    and "str_contains ''Missing'' raw"
  shows "CastorDataPoint_interpret L study self =
           missing_representation L study (field_type (self_instance_of self)) (first_reason raw)"
proof -
  note m = assms(2,3)
  from assms(1) consider
      (num) "field_type (self_instance_of self) \<in> numeric_types"
    | (og) "field_type (self_instance_of self) \<in> optiongroup_types"
    | (year) "field_type (self_instance_of self) = PStr ''year''"
    | (time) "field_type (self_instance_of self) = PStr ''time''"
    | (date) "field_type (self_instance_of self) = PStr ''date''"
    | (datetime) "field_type (self_instance_of self) = PStr ''datetime''"
    | (numberdate) "field_type (self_instance_of self) = PStr ''numberdate''"
    by (auto simp: missing_types_def)
  then show ?thesis
  proof cases
    case num
    then show ?thesis
      by (simp add: dispatch_numeric repr_numeric missing_numeric[OF m] split: option.splits)
  next
    case og
    then show ?thesis
      by (simp add: dispatch_optiongroup repr_optiongroup missing_optiongroup[OF m]
          split: option.splits)
  next
    case year
    then show ?thesis
      by (simp add: dispatch_year repr_numeric missing_year[OF m] split: option.splits)
  next
    case time
    then show ?thesis
      by (simp add: dispatch_time repr_time missing_time[OF m] split: option.splits)
  next
    case date
    then show ?thesis
      by (simp add: dispatch_date repr_date missing_date[OF m] str_result_def as_value_bind
          split: option.splits)
  next
    case datetime
    then show ?thesis
      by (simp add: dispatch_datetime repr_datetime missing_datetime[OF m] str_result_def
          as_value_bind split: option.splits)
  next
    case numberdate
    then show ?thesis
      by (simp add: dispatch_numberdate repr_numberdate missing_numberdate[OF m] as_value_bind
          split: option.splits)
  qed
qed

lemma ex_missing_types: "field_type (self_instance_of (example_point ''date'' raw)) \<in> missing_types"
  by (simp add: example_defs missing_types_def)

lemma ex_raw: "self_raw_value (example_point ftype raw) = PStr raw"
  by (simp add: example_defs)

lemma ex_contains: "str_contains ''Missing'' ''Missing (not done), earlier: measurement failed''"
  by code_simp

lemma ex_first: "first_reason ''Missing (not done), earlier: measurement failed'' = Some MeasurementFailed"
  by code_simp

lemma ex_ftype: "field_type (self_instance_of (example_point ftype raw)) = PStr ftype"
  by (simp add: example_defs)

lemma ex_repr:
  "missing_representation reflib example_study (PStr ''date'') (Some MeasurementFailed)
     = Inr (Value (PStr ''2995-01-01''))"
  by (simp add: repr_date example_study_def reflib_def ref_period_strftime_def Period_ymd_def
      two_of_nat_def digit_char_def)

text \<open>A date field whose raw value names two reasons, the one of lower priority first.\<close>

theorem missing_first_reason_witness:
  "CastorDataPoint_interpret reflib example_study
     (example_point ''date'' ''Missing (not done), earlier: measurement failed'')
   = Inr (Value (PStr ''2995-01-01''))"
  using missing_first_reason[OF ex_missing_types ex_raw ex_contains, of reflib example_study]
  by (simp only: ex_first ex_ftype ex_repr)

subsection \<open>The empty raw value\<close>

lemma empty_representation_nan:
  "ftype \<in> numeric_types \<union> {PStr ''year'', PStr ''date'', PStr ''datetime'', PStr ''grid''}
     \<Longrightarrow> empty_representation ftype raw = Value (PFloat NaN)"
  by (simp only: empty_representation_def if_True)

lemma empty_representation_str:
  assumes "ftype \<in> optiongroup_types \<union> {PStr ''time''}"
  shows "empty_representation ftype raw = Value (PStr [])"
proof -
  from assms consider "ftype = PStr ''checkbox''" | "ftype = PStr ''dropdown''"
    | "ftype = PStr ''radio''" | "ftype = PStr ''time''"
    by (auto simp: optiongroup_types_def)
  then show ?thesis
    by cases (simp_all add: empty_representation_def type_defs)
qed

lemma empty_representation_raw:
  assumes "ftype \<in> string_types"
  shows "empty_representation ftype raw = Value raw"
proof -
  from assms consider "ftype = PStr ''string''" | "ftype = PStr ''textarea''"
    | "ftype = PStr ''upload''" | "ftype = PStr ''calculation''"
    by (auto simp: string_types_def)
  then show ?thesis
    by cases (simp_all add: empty_representation_def type_defs)
qed

lemma empty_representation_pair:
  "empty_representation (PStr ''numberdate'') raw = Value (PList [PFloat NaN, PFloat NaN])"
  by (simp add: empty_representation_def type_defs)

lemmas empty_representation_cases = empty_representation_nan empty_representation_str
  empty_representation_raw empty_representation_pair

lemma empty_representation_other:
  "ftype \<notin> optiongroup_types \<union> numeric_types \<union> string_types \<union>
     {PStr ''year'', PStr ''datetime'', PStr ''date'', PStr ''time'', PStr ''numberdate'',
      PStr ''grid''} \<Longrightarrow>
   empty_representation ftype raw = Value (PStr ''Error'')"
  by (simp add: empty_representation_def type_defs)

text \<open>
  Claim C2. For every field type, the method \<^verbatim>\<open>__interpret\<close> returns the empty
  representation of the type for the empty raw value, and raises nothing: \<^verbatim>\<open>nan\<close> for
  numeric, slider, randomization, year, date, datetime and grid, the empty string for time,
  checkbox, dropdown and radio, the raw value itself for string, textarea, upload and
  calculation, and the pair of two \<^verbatim>\<open>nan\<close> for numberdate. (\<open>empty_representation\<close> is
  that table; for a tag outside it, it is the string \<^verbatim>\<open>Error\<close> of the last branch.)
\<close>

theorem empty_raw_value:
  assumes "self_raw_value self = PStr []"
  shows "CastorDataPoint_interpret L study self =
           Inr (empty_representation (field_type (self_instance_of self)) (self_raw_value self))"
proof -
  let ?t = "field_type (self_instance_of self)"
  consider (og) "?t \<in> optiongroup_types" | (num) "?t \<in> numeric_types"
    | (str) "?t \<in> string_types" | (year) "?t = PStr ''year''"
    | (datetime) "?t = PStr ''datetime''" | (date) "?t = PStr ''date''"
    | (time) "?t = PStr ''time''" | (numberdate) "?t = PStr ''numberdate''"
    | (grid) "?t = PStr ''grid''"
    | (other) "?t \<notin> optiongroup_types \<union> numeric_types \<union> string_types \<union>
        {PStr ''year'', PStr ''datetime'', PStr ''date'', PStr ''time'', PStr ''numberdate'',
         PStr ''grid''}"
    by blast
  then show ?thesis
  proof cases
    case og
    then show ?thesis using assms
      by (simp add: dispatch_optiongroup empty_representation_cases
          CastorDataPoint_interpret_optiongroup_def)
  next
    case num
    then show ?thesis using assms
      by (simp add: dispatch_numeric empty_representation_cases
          CastorDataPoint_interpret_numeric_def)
  next
    case str
    then show ?thesis using assms
      by (simp add: dispatch_string empty_representation_cases)
  next
    case year
    then show ?thesis using assms
      by (simp add: dispatch_year empty_representation_cases CastorDataPoint_interpret_year_def)
  next
    case datetime
    then show ?thesis using assms
      by (simp add: dispatch_datetime empty_representation_cases
          CastorDataPoint_interpret_datetime_def)
  next
    case date
    then show ?thesis using assms
      by (simp add: dispatch_date empty_representation_cases CastorDataPoint_interpret_date_def)
  next
    case time
    then show ?thesis using assms
      by (simp add: dispatch_time empty_representation_cases CastorDataPoint_interpret_time_def)
  next
    case numberdate
    then show ?thesis using assms
      by (simp add: dispatch_numberdate empty_representation_cases
          CastorDataPoint_interpret_numberdate_def)
  next
    case grid
    then show ?thesis using assms
      by (simp add: dispatch_grid empty_representation_cases CastorDataPoint_interpret_grid_def)
  next
    case other
    show ?thesis
      by (simp only: dispatch_other[OF other] empty_representation_other[OF other])
  qed
qed

lemma ex_empty_repr:
  "empty_representation (PStr ''numberdate'') (PStr []) = Value (PList [PFloat NaN, PFloat NaN])"
  "empty_representation (PStr ''grid'') (PStr []) = Value (PFloat NaN)"
  "empty_representation (PStr ''time'') (PStr []) = Value (PStr [])"
  by (simp_all add: empty_representation_cases)

theorem empty_raw_value_witness:
  "CastorDataPoint_interpret reflib example_study (example_point ''numberdate'' [])
     = Inr (Value (PList [PFloat NaN, PFloat NaN]))
   \<and> CastorDataPoint_interpret reflib example_study (example_point ''grid'' [])
     = Inr (Value (PFloat NaN))
   \<and> CastorDataPoint_interpret reflib example_study (example_point ''time'' [])
     = Inr (Value (PStr []))"
  using empty_raw_value[OF ex_raw, of reflib example_study "''numberdate''"]
    empty_raw_value[OF ex_raw, of reflib example_study "''grid''"]
    empty_raw_value[OF ex_raw, of reflib example_study "''time''"]
  by (simp only: ex_ftype ex_raw ex_empty_repr simp_thms)

subsection \<open>Numbers and years\<close>

lemma real_numeric:
  assumes "self_raw_value self = PStr raw" and "raw \<noteq> []" and "\<not> str_contains ''Missing'' raw"
  shows "CastorDataPoint_interpret_numeric L self
           = err_bind (float_of_str L raw) (\<lambda>x. Inr (PFloat x))"
  using assms by (simp add: CastorDataPoint_interpret_numeric_def)

lemma real_year:
  assumes "self_raw_value self = PStr raw" and "raw \<noteq> []" and "\<not> str_contains ''Missing'' raw"
  shows "CastorDataPoint_interpret_year L self
           = err_bind (int_of_str L raw) (\<lambda>x. Inr (PInt x))"
  using assms by (simp add: CastorDataPoint_interpret_year_def)

text \<open>
  Claim C3. Of a numeric, slider or randomization field, a raw value that is not empty and
  does not contain \<^verbatim>\<open>Missing\<close> is interpreted as \<^verbatim>\<open>float(rawValue)\<close>; a raw value that
  contains \<^verbatim>\<open>Missing\<close> and a recognized reason yields the number of the reason, from -95
  for measurement failed down to -99 for not done. A year field has the same numbers, and
  \<^verbatim>\<open>int(rawValue)\<close> for the value itself.
\<close>

theorem numeric_and_year:
  assumes "self_raw_value self = PStr raw"
  shows "(field_type (self_instance_of self) \<in> numeric_types \<and> raw \<noteq> []
            \<and> \<not> str_contains ''Missing'' raw \<longrightarrow>
          CastorDataPoint_interpret L study self
            = err_bind (float_of_str L raw) (\<lambda>x. Inr (Value (PFloat x))))
       \<and> (field_type (self_instance_of self) = PStr ''year'' \<and> raw \<noteq> []
            \<and> \<not> str_contains ''Missing'' raw \<longrightarrow>
          CastorDataPoint_interpret L study self
            = err_bind (int_of_str L raw) (\<lambda>x. Inr (Value (PInt x))))
       \<and> ((field_type (self_instance_of self) \<in> numeric_types
             \<or> field_type (self_instance_of self) = PStr ''year'')
            \<and> str_contains ''Missing'' raw \<longrightarrow>
          (\<forall>r. first_reason raw = Some r \<longrightarrow>
             CastorDataPoint_interpret L study self = Inr (Value (PInt (reason_code r)))))"
  using assms
  by (auto simp: dispatch_numeric dispatch_year real_numeric real_year as_value_bind
      missing_numeric missing_year)

lemma ex_numeric_types: "PStr ''numeric'' \<in> numeric_types" "PStr ''slider'' \<in> numeric_types"
  by (simp_all add: numeric_types_def)

lemma ex_no_missing:
  "\<not> str_contains ''Missing'' ''3.14''" "\<not> str_contains ''Missing'' ''1999''"
  "str_contains ''Missing'' ''Missing (not done)''"
  "first_reason ''Missing (not done)'' = Some NotDone"
  by code_simp+

lemmas number_defs = str_strip_def isspace_def ascii_lower_def parse_number_def
  parse_exponent_def is_digit_def nat_of_digits_def digit_val_def scale10_def

lemma ex_float: "float_of_str reflib ''3.14'' = Inr (Finite 3.14)"
  by (simp add: reflib_def ref_float_def number_defs)

lemma ex_int: "int_of_str reflib ''1999'' = Inr 1999"
  by (simp add: reflib_def ref_int_def number_defs)

theorem numeric_and_year_witness:
  "CastorDataPoint_interpret reflib example_study (example_point ''numeric'' ''3.14'')
     = Inr (Value (PFloat (Finite 3.14)))
   \<and> CastorDataPoint_interpret reflib example_study (example_point ''year'' ''1999'')
     = Inr (Value (PInt 1999))
   \<and> CastorDataPoint_interpret reflib example_study (example_point ''slider'' ''Missing (not done)'')
     = Inr (Value (PInt (- 99)))"
  using numeric_and_year[OF ex_raw, of "''numeric''" "''3.14''" reflib example_study]
    numeric_and_year[OF ex_raw, of "''year''" "''1999''" reflib example_study]
    numeric_and_year[OF ex_raw, of "''slider''" "''Missing (not done)''" reflib example_study]
  by (simp add: ex_ftype ex_numeric_types ex_no_missing ex_float ex_int)


subsection \<open>Option groups\<close>

lemma those_map_Some:
  "\<forall>x\<in>set xs. f x \<noteq> None \<Longrightarrow> those (map f xs) = Some (map (\<lambda>x. the (f x)) xs)"
  by (induction xs) auto

lemma those_map_None: "\<exists>x\<in>set xs. f x = None \<Longrightarrow> those (map f xs) = None"
  by (induction xs) (auto split: option.splits)

lemma dict_get_resolved:
  "\<forall>x\<in>set xs. link x \<noteq> None \<Longrightarrow> map (dict_get link) xs = map (\<lambda>x. the (link x)) xs"
  by (induction xs) (auto simp: dict_get_def)

lemma dict_get_unresolved: "link t = None \<Longrightarrow> dict_get link t = t"
  by (simp add: dict_get_def)

text \<open>The helper once the option group is found, for a raw value that is not empty.\<close>

lemma helper_found:
  assumes "self_raw_value self = PStr raw" and "raw \<noteq> []"
    and "get_single_optiongroup study (field_option_group (self_instance_of self)) = Some og"
  shows "CastorDataPoint_interpret_optiongroup_helper study self =
    (if pass_keyerrors study
     then Inr (PStr (str_join ''|'' (map (dict_get (dict_of og)) (str_split (CHR '';'') raw))))
     else (case those (map (dict_of og) (str_split (CHR '';'') raw)) of
             Some new_values \<Rightarrow> Inr (PStr (str_join ''|'' new_values))
           | None \<Rightarrow> Inl (CastorException (OptionalValueMappingFailed og (PStr raw)
                       (Some (self_field_id self, field_name (self_instance_of self)))))))"
  using assms
  by (simp add: CastorDataPoint_interpret_optiongroup_helper_def str_split_single_empty
      split: option.splits)

lemma helper_not_found:
  assumes "get_single_optiongroup study (field_option_group (self_instance_of self)) = None"
  shows "CastorDataPoint_interpret_optiongroup_helper study self
           = Inl (CastorException OptiongroupNotFound)"
  using assms by (simp add: CastorDataPoint_interpret_optiongroup_helper_def)

lemma optiongroup_real:
  assumes "self_raw_value self = PStr raw" and "raw \<noteq> []" and "\<not> str_contains ''Missing'' raw"
  shows "CastorDataPoint_interpret_optiongroup study self
           = CastorDataPoint_interpret_optiongroup_helper study self"
  using assms by (simp add: CastorDataPoint_interpret_optiongroup_def)

text \<open>
  Claim C4. Of a checkbox, dropdown or radio field, a raw value that is not empty and does
  not contain \<^verbatim>\<open>Missing\<close> is split at every \<^verbatim>\<open>;\<close>, each part is replaced by the display
  name that the resolved option group gives it, and the names are joined with \<^verbatim>\<open>|\<close>. (The
  parts are all values of the option group here.)
\<close>

theorem optiongroup_names:
  assumes "field_type (self_instance_of self) \<in> optiongroup_types"
    and "self_raw_value self = PStr raw" and "raw \<noteq> []" and "\<not> str_contains ''Missing'' raw"
    and "get_single_optiongroup study (field_option_group (self_instance_of self)) = Some og"
    and "\<forall>t\<in>set (str_split (CHR '';'') raw). dict_of og t \<noteq> None"
  shows "CastorDataPoint_interpret L study self =
           Inr (Value (PStr (str_join ''|''
             (map (\<lambda>t. the (dict_of og t)) (str_split (CHR '';'') raw)))))"
  using assms(6)
  by (simp add: dispatch_optiongroup[OF assms(1)] optiongroup_real[OF assms(2,3,4)]
      helper_found[OF assms(2,3,5)] those_map_Some dict_get_resolved)

lemma ex_optiongroup_types:
  "PStr ''checkbox'' \<in> optiongroup_types" "PStr ''radio'' \<in> optiongroup_types"
  "PStr ''dropdown'' \<in> optiongroup_types"
  by (simp_all add: optiongroup_types_def)

lemma ex_group:
  "get_single_optiongroup example_study (field_option_group (self_instance_of (example_point ftype raw)))
     = Some [(''1'', ''Yes''), (''2'', ''No'')]"
  "get_single_optiongroup example_passing (field_option_group (self_instance_of (example_point ftype raw)))
     = Some [(''1'', ''Yes''), (''2'', ''No'')]"
  "get_single_optiongroup example_unknown_groups i = None"
  "\<not> pass_keyerrors example_study" "pass_keyerrors example_passing"
  by (simp_all add: example_defs example_passing_def example_unknown_groups_def)

lemma ex_tokens:
  "str_split (CHR '';'') ''1;2'' = [''1'', ''2'']"
  "str_split (CHR '';'') ''1;7'' = [''1'', ''7'']"
  "\<not> str_contains ''Missing'' ''1;2''" "\<not> str_contains ''Missing'' ''1;7''"
  by simp_all

lemma ex_link:
  "dict_of [(''1'', ''Yes''), (''2'', ''No'')] ''1'' = Some ''Yes''"
  "dict_of [(''1'', ''Yes''), (''2'', ''No'')] ''2'' = Some ''No''"
  "dict_of [(''1'', ''Yes''), (''2'', ''No'')] ''7'' = None"
  by (simp_all add: dict_of_def)

text \<open>The example of the specification: the options Yes (1) and No (2), the raw value
  \<^verbatim>\<open>1;2\<close>.\<close>

theorem optiongroup_names_witness:
  "CastorDataPoint_interpret reflib example_study (example_point ''checkbox'' ''1;2'')
     = Inr (Value (PStr ''Yes|No''))"
proof -
  have "\<forall>t\<in>set (str_split (CHR '';'') ''1;2''). dict_of [(''1'', ''Yes''), (''2'', ''No'')] t \<noteq> None"
    by (simp add: ex_tokens ex_link)
  from optiongroup_names[of "example_point ''checkbox'' ''1;2''" "''1;2''" example_study _ reflib,
      OF _ ex_raw _ ex_tokens(3) ex_group(1) this]
  show ?thesis
    by (simp add: ex_ftype ex_optiongroup_types ex_tokens ex_link)
qed

text \<open>
  Claim C5. While the raw value of a checkbox, dropdown or radio field that is not empty
  and does not contain \<^verbatim>\<open>Missing\<close> is interpreted: an option group that the study does
  not find is a failure (\<^verbatim>\<open>Optiongroup not found\<close>); a part of the raw value that is
  no value of the group is a failure that names the group, the raw value and the field when
  \<^verbatim>\<open>pass_keyerrors\<close> is false, and stands as it is in the joined result when
  \<^verbatim>\<open>pass_keyerrors\<close> is true.
\<close>

theorem optiongroup_failures:
  assumes "field_type (self_instance_of self) \<in> optiongroup_types"
    and "self_raw_value self = PStr raw" and "raw \<noteq> []" and "\<not> str_contains ''Missing'' raw"
  shows "(get_single_optiongroup study (field_option_group (self_instance_of self)) = None \<longrightarrow>
          CastorDataPoint_interpret L study self = Inl (CastorException OptiongroupNotFound))
       \<and> (\<forall>og. get_single_optiongroup study (field_option_group (self_instance_of self)) = Some og
             \<and> (\<exists>t\<in>set (str_split (CHR '';'') raw). dict_of og t = None) \<longrightarrow>
          (\<not> pass_keyerrors study \<longrightarrow>
             CastorDataPoint_interpret L study self =
               Inl (CastorException (OptionalValueMappingFailed og (PStr raw)
                      (Some (self_field_id self, field_name (self_instance_of self))))))
          \<and> (pass_keyerrors study \<longrightarrow>
             CastorDataPoint_interpret L study self =
               Inr (Value (PStr (str_join ''|''
                 (map (\<lambda>t. case dict_of og t of Some n \<Rightarrow> n | None \<Rightarrow> t)
                    (str_split (CHR '';'') raw)))))))"
proof -
  have d: "dict_get (dict_of og) = (\<lambda>t. case dict_of og t of Some n \<Rightarrow> n | None \<Rightarrow> t)" for og
    by (rule ext) (simp add: dict_get_def)
  show ?thesis
    by (auto simp: dispatch_optiongroup[OF assms(1)] optiongroup_real[OF assms(2,3,4)]
        helper_not_found helper_found[OF assms(2,3)] those_map_None d)
qed

theorem optiongroup_failures_witness:
  "CastorDataPoint_interpret reflib example_unknown_groups (example_point ''radio'' ''1;7'')
     = Inl (CastorException OptiongroupNotFound)
   \<and> CastorDataPoint_interpret reflib example_study (example_point ''radio'' ''1;7'')
     = Inl (CastorException (OptionalValueMappingFailed [(''1'', ''Yes''), (''2'', ''No'')]
              (PStr ''1;7'') (Some (''F-1'', ''weight''))))
   \<and> CastorDataPoint_interpret reflib example_passing (example_point ''radio'' ''1;7'')
     = Inr (Value (PStr ''Yes|7''))"
proof -
  have t: "field_type (self_instance_of (example_point ''radio'' ''1;7'')) \<in> optiongroup_types"
    by (simp add: ex_ftype ex_optiongroup_types)
  have n: "''1;7'' \<noteq> []" by simp
  have i: "self_field_id (example_point ''radio'' ''1;7'') = ''F-1''"
    "field_name (self_instance_of (example_point ''radio'' ''1;7'')) = ''weight''"
    by (simp_all add: example_defs)
  note w = optiongroup_failures[OF t ex_raw n ex_tokens(4)]
  show ?thesis
    using w[of example_unknown_groups reflib] w[of example_study reflib]
      w[of example_passing reflib]
    by (simp add: ex_group ex_tokens ex_link i)
qed

text \<open>
  Claim C10. For a checkbox, dropdown or radio field whose raw value is empty, the result
  is the empty string whatever the study answers for an option group: the resolver is not
  consulted, and an id that no option group has does no harm.
\<close>

theorem optiongroup_empty_unresolved:
  assumes "field_type (self_instance_of self) \<in> optiongroup_types"
    and "self_raw_value self = PStr []"
  shows "CastorDataPoint_interpret L (study\<lparr>get_single_optiongroup := resolver\<rparr>) self
           = Inr (Value (PStr []))"
  using assms(2)
  by (simp add: dispatch_optiongroup[OF assms(1)] CastorDataPoint_interpret_optiongroup_def)

theorem optiongroup_empty_unresolved_witness:
  "get_single_optiongroup (example_study\<lparr>get_single_optiongroup := (\<lambda>i. None)\<rparr>)
      (field_option_group (self_instance_of (example_point ''dropdown'' []))) = None
   \<and> CastorDataPoint_interpret reflib (example_study\<lparr>get_single_optiongroup := (\<lambda>i. None)\<rparr>)
        (example_point ''dropdown'' []) = Inr (Value (PStr []))"
proof -
  have t: "field_type (self_instance_of (example_point ''dropdown'' [])) \<in> optiongroup_types"
    by (simp add: ex_ftype ex_optiongroup_types)
  show ?thesis
    using optiongroup_empty_unresolved[OF t ex_raw, where L = reflib and study = example_study
        and resolver = "\<lambda>i. None"]
    by simp
qed

subsection \<open>Number and date\<close>

lemma numberdate_real:
  assumes "self_raw_value self = PStr raw" and "raw \<noteq> []" and "\<not> str_contains ''Missing'' raw"
    and "str_split (CHR '';'') raw = [number, date]"
  shows "CastorDataPoint_interpret_numberdate L fmt self =
    err_bind (py_float L (if number = [] then PFloat NaN else PStr number))
      (\<lambda>x. err_bind (py_strptime L (if date = [] then PFloat NaN else PStr date) ''%d-%m-%Y'')
         (\<lambda>dt. err_bind (period_strftime L (Period_of dt FreqD) fmt)
            (\<lambda>s. Inr (PList [PFloat x, PStr s]))))"
  using assms by (simp add: CastorDataPoint_interpret_numberdate_def Let_def)

text \<open>The parts of the claim that the method fulfils: the number and the date are the two
  parts of the split, an empty number becomes \<^verbatim>\<open>nan\<close>, the number is parsed as a float and
  the date is parsed and printed again.\<close>

lemma numberdate_with_date:
  assumes "self_raw_value self = PStr raw" and "raw \<noteq> []" and "\<not> str_contains ''Missing'' raw"
    and "str_split (CHR '';'') raw = [number, date]" and "date \<noteq> []"
  shows "CastorDataPoint_interpret_numberdate L fmt self =
    err_bind (if number = [] then Inr NaN else float_of_str L number)
      (\<lambda>x. err_bind (strptime L date ''%d-%m-%Y'')
         (\<lambda>dt. err_bind (period_strftime L (Period_of dt FreqD) fmt)
            (\<lambda>s. Inr (PList [PFloat x, PStr s]))))"
  using assms(5) by (simp add: numberdate_real[OF assms(1-4)])

text \<open>With an empty date the method never returns: \<^verbatim>\<open>strptime\<close> is given \<^verbatim>\<open>nan\<close> and
  raises \<^verbatim>\<open>TypeError\<close>, unless \<^verbatim>\<open>float\<close> has raised before.\<close>

lemma numberdate_empty_date:
  assumes "self_raw_value self = PStr raw" and "raw \<noteq> []" and "\<not> str_contains ''Missing'' raw"
    and "str_split (CHR '';'') raw = [number, []]"
  shows "CastorDataPoint_interpret_numberdate L fmt self =
           err_bind (py_float L (if number = [] then PFloat NaN else PStr number))
             (\<lambda>x. Inl TypeError)"
  by (simp add: numberdate_real[OF assms])

lemmas date_defs = ref_strptime_def isspace_def directive_def two_digits_def one_digit_def is_digit_def
  nat_of_digits_def digit_val_def field_or_def days_in_month_def is_leap_def
  ref_period_strftime_def Period_of_def Period_ymd_def two_of_nat_def digit_char_def

lemma ex_strptime:
  "strptime reflib ''01-02-2020'' ''%d-%m-%Y''
     = Inr \<lparr>dt_year = 2020, dt_month = 2, dt_day = 1, dt_hour = 0, dt_minute = 0, dt_second = 0\<rparr>"
  by (simp add: reflib_def date_defs)

lemma ex_strftime:
  "period_strftime reflib
     (Period_of \<lparr>dt_year = 2020, dt_month = 2, dt_day = 1, dt_hour = 0, dt_minute = 0,
                 dt_second = 0\<rparr> FreqD) ''%Y-%m-%d''
     = Inr ''2020-02-01''"
  by (simp add: reflib_def date_defs)

lemma ex_float5: "float_of_str reflib ''5'' = Inr (Finite 5)"
  by (simp add: reflib_def ref_float_def number_defs)

lemma ex_date_format: "configuration example_study ''date'' = ''%Y-%m-%d''"
  by (simp add: example_study_def)

lemma ex_numberdate_split:
  "str_split (CHR '';'') ''5;01-02-2020'' = [''5'', ''01-02-2020'']"
  "str_split (CHR '';'') ''5;'' = [''5'', []]"
  "str_split (CHR '';'') '';01-02-2020'' = [[], ''01-02-2020'']"
  "\<not> str_contains ''Missing'' ''5;01-02-2020''"
  "\<not> str_contains ''Missing'' ''5;''"
  "\<not> str_contains ''Missing'' '';01-02-2020''"
  by simp_all

text \<open>The example of the specification, and a raw value without the number.\<close>

lemma numberdate_example:
  "CastorDataPoint_interpret reflib example_study (example_point ''numberdate'' ''5;01-02-2020'')
     = Inr (Value (PList [PFloat (Finite 5), PStr ''2020-02-01'']))"
  "CastorDataPoint_interpret reflib example_study (example_point ''numberdate'' '';01-02-2020'')
     = Inr (Value (PList [PFloat NaN, PStr ''2020-02-01'']))"
  by (simp_all add: dispatch_numberdate ex_ftype
      numberdate_with_date[OF ex_raw _ ex_numberdate_split(4) ex_numberdate_split(1)]
      numberdate_with_date[OF ex_raw _ ex_numberdate_split(6) ex_numberdate_split(3)]
      ex_float5 ex_strptime ex_strftime ex_date_format del: One_nat_def)

text \<open>
  Claim C6 says that an empty part of the split becomes \<^verbatim>\<open>nan\<close> in its slot of the pair.
  For the date that is what the method prepares (\<^verbatim>\<open>date = np.nan\<close>) and then misses: the
  raw value \<^verbatim>\<open>5;\<close>, a number without a date, ends in \<^verbatim>\<open>TypeError\<close> and not in the pair
  of 5.0 and \<^verbatim>\<open>nan\<close>.
\<close>

theorem numberdate_empty_date_raises:
  "CastorDataPoint_interpret reflib example_study (example_point ''numberdate'' ''5;'')
     = Inl TypeError"
  by (simp add: dispatch_numberdate ex_ftype
      numberdate_empty_date[OF ex_raw _ ex_numberdate_split(5) ex_numberdate_split(2)] ex_float5)

subsection \<open>The methods and the standalone functions\<close>

lemma same_time:
  "CastorDataPoint_interpret_time L fmt self = interpret_time L fmt (self_raw_value self)"
  by (simp add: CastorDataPoint_interpret_time_def interpret_time_def)

lemma same_datetime:
  "CastorDataPoint_interpret_datetime L fmt self = interpret_datetime L fmt (self_raw_value self)"
  by (simp add: CastorDataPoint_interpret_datetime_def interpret_datetime_def)

lemma same_date:
  "CastorDataPoint_interpret_date L fmt self = interpret_date L fmt (self_raw_value self)"
  by (simp add: CastorDataPoint_interpret_date_def interpret_date_def)

lemma same_numeric:
  "CastorDataPoint_interpret_numeric L self = interpret_numeric L (self_raw_value self)"
  by (simp add: CastorDataPoint_interpret_numeric_def interpret_numeric_def)

lemma same_year:
  "CastorDataPoint_interpret_year L self = interpret_year L (self_raw_value self)"
  by (simp add: CastorDataPoint_interpret_year_def interpret_year_def)

lemma same_numberdate:
  "CastorDataPoint_interpret_numberdate L fmt self
     = interpret_numberdate L fmt (self_raw_value self)"
  by (simp add: CastorDataPoint_interpret_numberdate_def interpret_numberdate_def)

lemma without_field_result_simps [simp]:
  "without_field_result (Inl e) = Inl (without_field e)"
  "without_field_result (Inr v) = Inr v"
  by (simp_all add: without_field_result_def)

lemma same_optiongroup_helper:
  "without_field_result (CastorDataPoint_interpret_optiongroup_helper study self)
     = interpret_optiongroup_helper study (self_instance_of self) (self_raw_value self)"
  by (cases "self_raw_value self")
    (simp_all add: CastorDataPoint_interpret_optiongroup_helper_def
      interpret_optiongroup_helper_def Let_def split: option.splits)

lemma same_optiongroup:
  "without_field_result (CastorDataPoint_interpret_optiongroup study self)
     = interpret_optiongroup study (self_instance_of self) (self_raw_value self)"
  by (simp add: CastorDataPoint_interpret_optiongroup_def interpret_optiongroup_def
      same_optiongroup_helper)


lemma without_field_idem: "without_field (without_field e) = without_field e"
  by (cases e rule: without_field.cases) simp_all

lemma without_field_result_idem:
  "without_field_result (without_field_result m) = without_field_result m"
  by (cases m) (simp_all add: without_field_idem)

lemma without_field_as_value:
  "without_field_result (as_value m) = as_value (without_field_result m)"
  by (cases m) simp_all

lemma function_optiongroup_stable:
  fixes self :: castor_data_point
  shows "without_field_result
           (interpret_optiongroup study (self_instance_of self) (self_raw_value self))
     = interpret_optiongroup study (self_instance_of self) (self_raw_value self)"
  using without_field_result_idem[of "CastorDataPoint_interpret_optiongroup study self"]
  by (simp only: same_optiongroup)

lemma value_dispatch_optiongroup:
  "field_type instance_of \<in> optiongroup_types \<Longrightarrow>
   interpret_value L study instance_of raw_value
     = interpret_optiongroup study instance_of raw_value"
  by (simp add: interpret_value_def optiongroup_types_def)

lemma value_dispatch_numeric:
  "field_type instance_of \<in> numeric_types \<Longrightarrow>
   interpret_value L study instance_of raw_value = interpret_numeric L raw_value"
  by (auto simp: interpret_value_def numeric_types_def)

lemma value_dispatch_year:
  "field_type instance_of = PStr ''year'' \<Longrightarrow>
   interpret_value L study instance_of raw_value = interpret_year L raw_value"
  by (simp add: interpret_value_def)

lemma value_dispatch_string:
  "field_type instance_of \<in> string_types \<Longrightarrow>
   interpret_value L study instance_of raw_value = Inr raw_value"
  by (auto simp: interpret_value_def string_types_def)

lemma value_dispatch_datetime:
  "field_type instance_of = PStr ''datetime'' \<Longrightarrow>
   interpret_value L study instance_of raw_value
     = interpret_datetime L (configuration study ''datetime'') raw_value"
  by (simp add: interpret_value_def)

lemma value_dispatch_date:
  "field_type instance_of = PStr ''date'' \<Longrightarrow>
   interpret_value L study instance_of raw_value
     = interpret_date L (configuration study ''date'') raw_value"
  by (simp add: interpret_value_def)

lemma value_dispatch_time:
  "field_type instance_of = PStr ''time'' \<Longrightarrow>
   interpret_value L study instance_of raw_value
     = interpret_time L (configuration study ''time'') raw_value"
  by (simp add: interpret_value_def)

lemma value_dispatch_numberdate:
  "field_type instance_of = PStr ''numberdate'' \<Longrightarrow>
   interpret_value L study instance_of raw_value
     = interpret_numberdate L (configuration study ''date'') raw_value"
  by (simp add: interpret_value_def)

lemma value_dispatch_grid:
  "field_type instance_of = PStr ''grid'' \<Longrightarrow>
   interpret_value L study instance_of raw_value = Inr (PStr ''Error'')"
  by (simp add: interpret_value_def)

lemma value_dispatch_other:
  "field_type instance_of \<notin> optiongroup_types \<union> numeric_types \<union> string_types \<union>
     {PStr ''year'', PStr ''datetime'', PStr ''date'', PStr ''time'', PStr ''numberdate'',
      PStr ''grid''} \<Longrightarrow>
   interpret_value L study instance_of raw_value = Inr (PStr ''Error'')"
  by (simp add: interpret_value_def type_defs)

text \<open>
  Claim C9, amended. For every type tag but \<^verbatim>\<open>grid\<close> and every raw value, the standalone
  function \<^verbatim>\<open>interpret\<close> returns the value that the method \<^verbatim>\<open>__interpret\<close> returns, and
  raises when and what the method raises, except that the message of a failed mapping of an
  option lacks the id and the name of the field. For \<^verbatim>\<open>grid\<close> the function has no branch:
  it returns the string \<^verbatim>\<open>Error\<close>, where the method rebuilds the table.
\<close>

theorem methods_mirror_functions:
  "(field_type (self_instance_of self) \<noteq> PStr ''grid'' \<longrightarrow>
      without_field_result (CastorDataPoint_interpret L study self)
        = without_field_result
            (as_value (interpret_value L study (self_instance_of self) (self_raw_value self))))
   \<and> (field_type (self_instance_of self) = PStr ''grid'' \<longrightarrow>
      interpret_value L study (self_instance_of self) (self_raw_value self)
        = Inr (PStr ''Error''))"
proof -
  let ?t = "field_type (self_instance_of self)"
  consider (og) "?t \<in> optiongroup_types" | (num) "?t \<in> numeric_types"
    | (str) "?t \<in> string_types" | (year) "?t = PStr ''year''"
    | (datetime) "?t = PStr ''datetime''" | (date) "?t = PStr ''date''"
    | (time) "?t = PStr ''time''" | (numberdate) "?t = PStr ''numberdate''"
    | (grid) "?t = PStr ''grid''"
    | (other) "?t \<notin> optiongroup_types \<union> numeric_types \<union> string_types \<union>
        {PStr ''year'', PStr ''datetime'', PStr ''date'', PStr ''time'', PStr ''numberdate'',
         PStr ''grid''}"
    by blast
  then show ?thesis
  proof cases
    case og
    have "?t \<noteq> PStr ''grid''" using og by (auto simp: optiongroup_types_def)
    then show ?thesis
      by (simp add: dispatch_optiongroup[OF og] value_dispatch_optiongroup[OF og]
          without_field_as_value same_optiongroup function_optiongroup_stable)
  next
    case num
    have "?t \<noteq> PStr ''grid''" using num by (auto simp: numeric_types_def)
    then show ?thesis
      by (simp add: dispatch_numeric[OF num] value_dispatch_numeric[OF num] same_numeric)
  next
    case str
    have "?t \<noteq> PStr ''grid''" using str by (auto simp: string_types_def)
    then show ?thesis
      by (simp add: dispatch_string[OF str] value_dispatch_string[OF str])
  next
    case year
    then show ?thesis
      by (simp add: dispatch_year value_dispatch_year same_year)
  next
    case datetime
    then show ?thesis
      by (simp add: dispatch_datetime value_dispatch_datetime same_datetime)
  next
    case date
    then show ?thesis
      by (simp add: dispatch_date value_dispatch_date same_date)
  next
    case time
    then show ?thesis
      by (simp add: dispatch_time value_dispatch_time same_time)
  next
    case numberdate
    then show ?thesis
      by (simp add: dispatch_numberdate value_dispatch_numberdate same_numberdate)
  next
    case grid
    then show ?thesis
      by (simp add: value_dispatch_grid)
  next
    case other
    then have "?t \<noteq> PStr ''grid''" by blast
    then show ?thesis
      by (simp add: dispatch_other[OF other] value_dispatch_other[OF other])
  qed
qed

text \<open>A radio field with a part that is no value of its option group: the two failures
  differ in the field only. A grid field: the function answers \<^verbatim>\<open>Error\<close>.\<close>

theorem methods_mirror_functions_witness:
  "without_field_result
     (CastorDataPoint_interpret reflib example_study (example_point ''radio'' ''1;7''))
     = without_field_result
         (as_value (interpret_value reflib example_study (example_field ''radio'') (PStr ''1;7'')))
   \<and> interpret_value reflib example_study (example_field ''grid'') (PStr ''1;7'')
       = Inr (PStr ''Error'')"
proof -
  have i: "self_instance_of (example_point ftype raw) = example_field ftype"
    "field_type (example_field ftype) = PStr ftype" for ftype raw
    by (simp_all add: example_point_def example_field_def)
  show ?thesis
    using methods_mirror_functions[of "example_point ''radio'' ''1;7''" reflib example_study]
      methods_mirror_functions[of "example_point ''grid'' ''1;7''" reflib example_study]
    by (simp add: ex_ftype ex_raw i)
qed

text \<open>Claim C9 as it is stated fails for a grid field, here with the empty raw value: the
  method returns \<^verbatim>\<open>nan\<close>, the function the string \<^verbatim>\<open>Error\<close>.\<close>

theorem methods_mirror_functions_counterexample:
  "CastorDataPoint_interpret reflib example_study (example_point ''grid'' [])
     = Inr (Value (PFloat NaN))
   \<and> as_value (interpret_value reflib example_study
        (self_instance_of (example_point ''grid'' [])) (self_raw_value (example_point ''grid'' [])))
     = Inr (Value (PStr ''Error''))
   \<and> CastorDataPoint_interpret reflib example_study (example_point ''grid'' [])
     \<noteq> as_value (interpret_value reflib example_study
        (self_instance_of (example_point ''grid'' [])) (self_raw_value (example_point ''grid'' [])))"
  by (simp add: dispatch_grid value_dispatch_grid ex_ftype ex_raw
      CastorDataPoint_interpret_grid_def)

subsection \<open>The grid\<close>

lemmas json_defs = reflib_def ref_json_loads_def skip_ws_def json_ws_def dict_insert_def

lemma ex_json_template3:
  "json_loads reflib template3 =
     Inr (PDict [(''fieldTypes'', PList [PStr ''string'', PStr ''dropdown'', PStr ''date'']),
                 (''optionLists'', PList [PNone, PStr ''og1'', PNone]),
                 (''rowNames'', PList [PStr ''r 1'', PStr ''r 2'', PStr ''r 3'']),
                 (''columnNames'', PList [PStr ''c 1'', PStr ''c 2 ''])])"
  by (simp add: json_defs template3_def)

lemma ex_json_raw32:
  "json_loads reflib raw32 =
     Inr (PDict [(''0'', PDict [(''0'', PStr ''a''), (''1'', PStr ''b'')]),
                 (''1'', PDict [(''0'', PStr ''1''), (''1'', PStr ''2'')]),
                 (''2'', PDict [(''0'', PStr ''01-02-2020''), (''1'', PStr ''Missing (not asked)'')])])"
  by code_simp




lemma ex_grid_nonempty:
  "raw23 \<noteq> []" "raw32 \<noteq> []" "raw32_bad_cell \<noteq> []" "template3 \<noteq> []" "template4 \<noteq> []"
  by (simp_all add: raw23_def raw32_def raw32_bad_cell_def template3_def template4_def)

lemma upt_2: "[0..<2] = [0, Suc 0]" "[0..<3] = [0, Suc 0, 2]"
  by (simp_all add: upt_rec)


lemma grid_assemble_Table:
  "grid_assemble L cols rn cn = Inr t \<Longrightarrow> \<exists>index columns cells. t = Table index columns cells"
  by (auto simp: grid_assemble_def err_bind_def Let_def split: sum.splits option.splits if_splits)


lemma grid_failure_Some:
  "grid_failure L study self = Some step \<Longrightarrow> \<exists>e. grid_try L study self = Inl e"
  by (auto simp: grid_failure_def grid_try_def grid_rows_of_def
      split: sum.splits prod.splits if_splits)

lemma grid_failure_None:
  assumes "grid_failure L study self = None"
  shows "\<exists>index columns cells. grid_try L study self = Inr (Table index columns cells)"
proof -
  from assms obtain gt rows df orn rn cn cols t where
    "json_loads L (field_summary_template (self_instance_of self)) = Inr gt"
    "err_bind (py_json_loads L (self_raw_value self)) py_values = Inr rows"
    "DataFrame L rows = Inr df" "grid_orient gt df = Inr (orn, rn, cn)"
    "grid_columns L study self gt orn = Inr cols" "grid_assemble L cols rn cn = Inr t"
    by (auto simp: grid_failure_def split: sum.splits prod.splits)
  moreover from this obtain index columns cells where "t = Table index columns cells"
    using grid_assemble_Table by blast
  ultimately show ?thesis
    by (simp add: grid_try_def grid_rows_of_def)
qed

text \<open>
  Claim C7. For a grid field: when the raw value or the summary template of the field is the
  empty string, the result is \<^verbatim>\<open>nan\<close>. Otherwise, when a step of the reconstruction
  fails (parsing the template or the raw value, building or orienting the table,
  interpreting a cell, assembling), the result is the string \<^verbatim>\<open>Error\<close> and nothing of
  the table; when no step fails, it is a table. In no case does the method raise.
\<close>

theorem grid_error_handling:
  assumes "field_type (self_instance_of self) = PStr ''grid''"
  shows "(self_raw_value self = PStr [] \<or> field_summary_template (self_instance_of self) = [] \<longrightarrow>
            CastorDataPoint_interpret L study self = Inr (Value (PFloat NaN)))
       \<and> (self_raw_value self \<noteq> PStr [] \<and> field_summary_template (self_instance_of self) \<noteq> [] \<longrightarrow>
            (\<forall>step. grid_failure L study self = Some step \<longrightarrow>
               CastorDataPoint_interpret L study self = Inr (Value (PStr ''Error'')))
          \<and> (grid_failure L study self = None \<longrightarrow>
               (\<exists>index columns cells.
                  CastorDataPoint_interpret L study self = Inr (Table index columns cells))))
       \<and> (\<exists>v. CastorDataPoint_interpret L study self = Inr v)"
proof (intro conjI impI allI)
  assume "self_raw_value self = PStr [] \<or> field_summary_template (self_instance_of self) = []"
  then show "CastorDataPoint_interpret L study self = Inr (Value (PFloat NaN))"
    by (auto simp: dispatch_grid[OF assms] CastorDataPoint_interpret_grid_def)
next
  fix step
  assume ne: "self_raw_value self \<noteq> PStr [] \<and> field_summary_template (self_instance_of self) \<noteq> []"
    and "grid_failure L study self = Some step"
  then obtain e where "grid_try L study self = Inl e"
    using grid_failure_Some by blast
  with ne show "CastorDataPoint_interpret L study self = Inr (Value (PStr ''Error''))"
    by (simp add: dispatch_grid[OF assms] CastorDataPoint_interpret_grid_def)
next
  assume ne: "self_raw_value self \<noteq> PStr [] \<and> field_summary_template (self_instance_of self) \<noteq> []"
    and "grid_failure L study self = None"
  then obtain index columns cells where "grid_try L study self = Inr (Table index columns cells)"
    using grid_failure_None by blast
  with ne show "\<exists>index columns cells.
      CastorDataPoint_interpret L study self = Inr (Table index columns cells)"
    by (simp add: dispatch_grid[OF assms] CastorDataPoint_interpret_grid_def)
next
  show "\<exists>v. CastorDataPoint_interpret L study self = Inr v"
    by (simp add: dispatch_grid[OF assms] CastorDataPoint_interpret_grid_def split: sum.splits)
qed

lemma ex_grid_field:
  "field_type (self_instance_of (example_grid template raw)) = PStr ''grid''"
  "self_raw_value (example_grid template raw) = PStr raw"
  "field_summary_template (self_instance_of (example_grid template raw)) = template"
  "field_name (self_instance_of (example_grid template raw)) = ''visits''"
  by (simp_all add: example_grid_def)

lemma ex_json_broken: "json_loads reflib ''{oops'' = Inl JSONDecodeError"
  by (simp add: json_defs)

lemma ex_failure_template:
  "grid_failure reflib example_study (example_grid ''{oops'' raw32) = Some ParseTemplate"
  by (simp add: grid_failure_def ex_grid_field ex_json_broken)

lemma ex_failure_raw:
  "grid_failure reflib example_study (example_grid template3 ''{oops'') = Some ParseRaw"
  by (simp add: grid_failure_def ex_grid_field ex_json_broken ex_json_template3)


lemma ex_json_raw32_bad_cell:
  "json_loads reflib raw32_bad_cell =
     Inr (PDict [(''0'', PDict [(''0'', PStr ''a''), (''1'', PStr ''b'')]),
                 (''1'', PDict [(''0'', PStr ''1''), (''1'', PStr ''9'')]),
                 (''2'', PDict [(''0'', PStr ''01-02-2020''), (''1'', PStr ''Missing (not asked)'')])])"
  by (simp add: json_defs raw32_bad_cell_def)

lemmas grid_eval_defs = ref_DataFrame_def first_seen_def grid_orient_def grid_columns_def
  grid_column_def df_T_def df_column_def df_rows_def upt_2 CastorField_def grid_assemble_def
  name_check_def all_first_def

lemmas cell_eval_defs = value_dispatch_string string_types_def value_dispatch_optiongroup
  optiongroup_types_def interpret_optiongroup_def interpret_optiongroup_helper_def
  dict_of_def dict_get_def example_study_def value_dispatch_date interpret_date_def
  except_ValueError_def str_result_def

lemma ex_failure_cell:
  "grid_failure reflib example_study (example_grid template3 raw32_bad_cell) = Some InterpretCells"
  apply (simp add: grid_failure_def ex_grid_field ex_json_template3 ex_json_raw32_bad_cell)
  apply (simp add: reflib_def grid_eval_defs cell_eval_defs)
  done

text \<open>A grid of three rows of two cells, whose template has three field types: the table
  is transposed, and its three columns are a string, a dropdown and a date.\<close>

lemma ex_grid3:
  "CastorDataPoint_interpret reflib example_study (example_grid template3 raw32)
     = Inr (Table [''c 1'', ''c 2''] [''r 1'', ''r 2'', ''r 3'']
             [[PStr ''a'', PStr ''Yes'', PStr ''2020-02-01''],
              [PStr ''b'', PStr ''No'', PStr ''2997-01-01'']])"
  apply (simp add: dispatch_grid ex_grid_field CastorDataPoint_interpret_grid_def grid_try_def
      ex_json_template3 grid_rows_of_def ex_json_raw32 ex_grid_nonempty)
  apply (simp add: reflib_def grid_eval_defs cell_eval_defs date_defs str_strip_def)
  done


text \<open>A template that is no JSON, a raw value that is no JSON, a cell that is no value of
  its option group, and an empty template.\<close>

theorem grid_error_handling_witness:
  "CastorDataPoint_interpret reflib example_study (example_grid ''{oops'' raw32)
     = Inr (Value (PStr ''Error''))
   \<and> CastorDataPoint_interpret reflib example_study (example_grid template3 ''{oops'')
     = Inr (Value (PStr ''Error''))
   \<and> CastorDataPoint_interpret reflib example_study (example_grid template3 raw32_bad_cell)
     = Inr (Value (PStr ''Error''))
   \<and> CastorDataPoint_interpret reflib example_study (example_grid [] raw32)
     = Inr (Value (PFloat NaN))"
  using grid_error_handling[OF ex_grid_field(1), of "''{oops''" raw32 reflib example_study]
    grid_error_handling[OF ex_grid_field(1), of template3 "''{oops''" reflib example_study]
    grid_error_handling[OF ex_grid_field(1), of template3 raw32_bad_cell reflib example_study]
    grid_error_handling[OF ex_grid_field(1), of "[]" raw32 reflib example_study]
  by (simp add: ex_grid_field ex_grid_nonempty ex_failure_template ex_failure_raw ex_failure_cell)

subsection \<open>The orientation of the table\<close>








lemma shape_df_T [simp]: "shape0 (df_T df) = shape1 df" "shape1 (df_T df) = shape0 df"
  by (simp_all add: df_T_def)




lemma ex_parsed_template3: "json_loads reflib template3 = Inr parsed_template3"
  by (simp add: ex_json_template3 parsed_template3_def)



end
